theory Spec2Isabelle
  imports Main "HOL-Library.AList"
begin

section \<open>JSON values as the program sees them\<close>

text \<open>
  The document is JSON text; the code works on what \<^verbatim>\<open>JSON.parse\<close> returns and never on
  the text itself. A value is modelled by the datatype below.
  \<^item> A number is finite and is carried by the decimal text that \<^verbatim>\<open>String(n)\<close> yields for
    it. The code only compares numbers with \<^verbatim>\<open>===\<close>, tests them for truthiness and prints
    them, and all three are functions of that text (\<^verbatim>\<open>-0\<close> and \<^verbatim>\<open>0\<close> both print \<^verbatim>\<open>0\<close>).
  \<^item> An object is the list of its own properties in enumeration order, as
    \<^verbatim>\<open>Object.entries\<close> returns them; the numeric reordering of integer-like keys is
    outside the model. Where the code indexes an object by a node label or a frame name,
    a name that is no own property reaches the members that the object inherits from
    \<^verbatim>\<open>Object.prototype\<close>: \<open>object_prototype_names\<close> below lists them, and the
    definitions of those places say what the lookup or the assignment does with them.
\<close>

type_synonym number = string

datatype json =
    JNull
  | JBool bool
  | JNum number
  | JStr string
  | JArr "json list"
  | JObj "(string \<times> json) list"

text \<open>Exceptions. \<open>Unmodelled\<close> marks the inputs on which the model does not follow the code:
  an array, a primitive, a function or a prototype object indexed by a label or a frame
  name.\<close>

datatype js_error = SyntaxError | TypeError | Unmodelled

text \<open>
  The names of the properties of \<^verbatim>\<open>Object.prototype\<close>. A plain object that has no own
  property of such a name yields the inherited member when it is read under the name: a
  function, and for \<^verbatim>\<open>__proto__\<close> the prototype itself; either is truthy and is not
  \<^verbatim>\<open>undefined\<close>. An assignment under \<^verbatim>\<open>__proto__\<close>, when the object has no own property of
  that name, makes the assigned object the prototype and creates no property; an
  assignment under any other name creates or replaces an own property.
\<close>

definition object_prototype_names :: "string list" where
  "object_prototype_names =
     [''constructor'', ''__defineGetter__'', ''__defineSetter__'', ''hasOwnProperty'',
      ''__lookupGetter__'', ''__lookupSetter__'', ''isPrototypeOf'', ''propertyIsEnumerable'',
      ''toString'', ''valueOf'', ''__proto__'', ''toLocaleString'']"

text \<open>\<^verbatim>\<open>x?.k\<close> for a fixed name \<^verbatim>\<open>k\<close> of the code, the own property \<^verbatim>\<open>k\<close> of an object;
  \<open>None\<close> is \<^verbatim>\<open>undefined\<close>. None of the fixed names is an index, \<^verbatim>\<open>length\<close> or the name
  of a member of a prototype, so an array or a primitive has no such property.\<close>

fun get_prop :: "json \<Rightarrow> string \<Rightarrow> json option" where
  "get_prop (JObj kvs) k = map_of kvs k"
| "get_prop _ k = None"

fun nullish :: "json option \<Rightarrow> bool" where
  "nullish None = True"
| "nullish (Some JNull) = True"
| "nullish (Some _) = False"

text \<open>\<^verbatim>\<open>a ?? b\<close>\<close>

definition coalesce :: "json option \<Rightarrow> json option \<Rightarrow> json option" where
  "coalesce a b = (if nullish a then b else a)"

fun truthy :: "json option \<Rightarrow> bool" where
  "truthy None = False"
| "truthy (Some JNull) = False"
| "truthy (Some (JBool b)) = b"
| "truthy (Some (JNum t)) = (t \<noteq> ''0'')"
| "truthy (Some (JStr s)) = (s \<noteq> [])"
| "truthy (Some (JArr xs)) = True"
| "truthy (Some (JObj kvs)) = True"

text \<open>\<^verbatim>\<open>x && typeof x === 'object'\<close>\<close>

fun is_object :: "json option \<Rightarrow> bool" where
  "is_object (Some (JArr xs)) = True"
| "is_object (Some (JObj kvs)) = True"
| "is_object _ = False"

text \<open>\<^verbatim>\<open>String(i)\<close> for an array index.\<close>

definition digit :: "nat \<Rightarrow> char" where
  "digit d = ''0123456789'' ! d"

function dec :: "nat \<Rightarrow> string" where
  "dec n = (if n < 10 then [digit n] else dec (n div 10) @ [digit (n mod 10)])"
  by pat_completeness auto
termination
  by (relation "measure id") auto

declare dec.simps [simp del]

fun join :: "string \<Rightarrow> string list \<Rightarrow> string" where
  "join sep [] = []"
| "join sep [x] = x"
| "join sep (x # y # ys) = x @ sep @ join sep (y # ys)"

text \<open>
  \<^verbatim>\<open>String(v)\<close> on a parsed value; \<open>None\<close> is the TypeError of converting an object whose
  own \<^verbatim>\<open>toString\<close> property hides the inherited method (no parsed value is callable).
  An array prints its elements joined by commas, \<^verbatim>\<open>null\<close> as the empty string.
\<close>

fun js_String :: "json \<Rightarrow> string option" where
  "js_String JNull = Some ''null''"
| "js_String (JBool b) = Some (if b then ''true'' else ''false'')"
| "js_String (JNum t) = Some t"
| "js_String (JStr s) = Some s"
| "js_String (JArr xs) =
     map_option (join '','') (those (map (\<lambda>x. if x = JNull then Some [] else js_String x) xs))"
| "js_String (JObj kvs) =
     (if ''toString'' \<in> fst ` set kvs then None else Some ''[object Object]'')"

text \<open>\<^verbatim>\<open>Object.entries\<close> of an object or an array.\<close>

fun entries :: "json \<Rightarrow> (string \<times> json) list" where
  "entries (JObj kvs) = kvs"
| "entries (JArr xs) = map (\<lambda>(i, x). (dec i, x)) (enumerate 0 xs)"
| "entries _ = []"

section \<open>The canonical model (chgOutlineProvider.ts)\<close>

text \<open>
  Field \<open>val\<close> is the source's \<^verbatim>\<open>value\<close> and \<open>node_constant\<close> its \<^verbatim>\<open>constant\<close>; \<open>src_label\<close>,
  \<open>edge_label\<close> and \<open>edge_constant\<close> are \<^verbatim>\<open>label\<close> of a source, \<^verbatim>\<open>label\<close> and \<^verbatim>\<open>constant\<close> of
  an edge. Optional fields hold whatever the raw object held, \<open>None\<close> for \<^verbatim>\<open>undefined\<close>.
\<close>

record ChgNode =
  label :: string
  val :: "json option"
  is_constant :: "json option"
  description :: "json option"
  units :: "json option"
  node_constant :: "json option"

record ChgSource =
  handle :: string
  src_label :: string

record ChgEdge =
  edge_label :: string
  weight :: "json option"
  edge_constant :: "json option"
  sources :: "ChgSource list"
  target :: string
  rel :: "json option"

type_synonym frame = "(string \<times> json list) list"

record ChgData =
  nodes :: "ChgNode list"
  edges :: "ChgEdge list"
  frames :: "(string \<times> frame) list"
  frameNames :: "string list"

definition parse_node :: "json \<Rightarrow> ChgNode option" where
  "parse_node n =
     (case get_prop n ''label'' of
        Some (JStr l) \<Rightarrow>
          (let isConst = coalesce (get_prop n ''is_constant'') (get_prop n ''constant'')
           in Some \<lparr>label = l, val = get_prop n ''value'', is_constant = isConst,
                    description = get_prop n ''description'', units = get_prop n ''units'',
                    node_constant = isConst\<rparr>)
      | _ \<Rightarrow> None)"

definition parse_nodes :: "json list \<Rightarrow> ChgNode list" where
  "parse_nodes ns = List.map_filter parse_node ns"

text \<open>The sources of one edge; \<open>None\<close> when \<^verbatim>\<open>String\<close> throws.\<close>

definition parse_sources :: "json option \<Rightarrow> ChgSource list option" where
  "parse_sources rawSources =
     (case rawSources of
        Some (JArr xs) \<Rightarrow>
          those (map (\<lambda>(i, s). map_option (\<lambda>l. \<lparr>handle = dec i, src_label = l\<rparr>) (js_String s))
                     (enumerate 0 xs))
      | Some (JObj kvs) \<Rightarrow>
          those (map (\<lambda>(h, v). map_option (\<lambda>l. \<lparr>handle = h, src_label = l\<rparr>) (js_String v)) kvs)
      | _ \<Rightarrow> Some [])"

fun parse_edges :: "json list \<Rightarrow> js_error + ChgEdge list" where
  "parse_edges [] = Inr []"
| "parse_edges (e # es) =
     (case get_prop e ''label'' of
        Some (JStr l) \<Rightarrow>
          (case parse_sources (coalesce (get_prop e ''source_nodes'') (get_prop e ''sources'')) of
             None \<Rightarrow> Inl TypeError
           | Some srcs \<Rightarrow>
               (case parse_edges es of
                  Inl err \<Rightarrow> Inl err
                | Inr rest \<Rightarrow>
                    Inr (\<lparr>edge_label = l,
                          weight = coalesce (get_prop e ''weight'') (get_prop e ''cost''),
                          edge_constant = get_prop e ''constant'',
                          sources = srcs,
                          target = (case get_prop e ''target'' of Some (JStr t) \<Rightarrow> t | _ \<Rightarrow> []),
                          rel = get_prop e ''rel''\<rparr> # rest)))
      | _ \<Rightarrow> parse_edges es)"

text \<open>
  The frames object and every frame of the canonical model are object literals filled by
  assignment, \<^verbatim>\<open>frames[frameName] = {}\<close> and \<^verbatim>\<open>frames[frameName][nodeLabel] = ...\<close>. The
  assigned values are objects, so an assignment under the name \<^verbatim>\<open>__proto__\<close> sets the
  prototype of the object assigned to, and \<^verbatim>\<open>frames[frameName]\<close> then reads that prototype
  back. The lists below keep such an assignment as the entry of that name: in a canonical
  frame and in the canonical frames the entry \<open>__proto__\<close> is the prototype of the
  object, every other entry an own property.
\<close>

definition parse_frame :: "json \<Rightarrow> frame" where
  "parse_frame frameData =
     foldl (\<lambda>fr (nodeLabel, values).
              AList.update nodeLabel (case values of JArr vs \<Rightarrow> vs | v \<Rightarrow> [v]) fr)
           [] (entries frameData)"

definition parse_frames :: "json option \<Rightarrow> (string \<times> frame) list \<times> string list" where
  "parse_frames rawFrames =
     (case rawFrames of
        None \<Rightarrow> ([], [])
      | Some fs \<Rightarrow>
          if is_object (Some fs)
          then foldl (\<lambda>(frs, names) (frameName, frameData).
                        if is_object (Some frameData)
                        then (AList.update frameName (parse_frame frameData) frs,
                              names @ [frameName])
                        else (frs, names))
                     ([], []) (entries fs)
          else ([], []))"

text \<open>The body of the \<^verbatim>\<open>try\<close> block: \<open>Inl\<close> is an exception raised inside it.\<close>

definition parse_body :: "json \<Rightarrow> js_error + ChgData" where
  "parse_body raw =
     (if raw = JNull then Inl TypeError
      else
        let hg = (case coalesce (get_prop raw ''hypergraph'') (Some raw) of
                    Some h \<Rightarrow> h | None \<Rightarrow> raw);
            ns = (case get_prop hg ''nodes'' of Some (JArr xs) \<Rightarrow> parse_nodes xs | _ \<Rightarrow> [])
        in case (case get_prop hg ''edges'' of Some (JArr xs) \<Rightarrow> parse_edges xs | _ \<Rightarrow> Inr []) of
             Inl err \<Rightarrow> Inl err
           | Inr es \<Rightarrow>
               Inr \<lparr>nodes = ns, edges = es,
                    frames = fst (parse_frames (get_prop raw ''frames'')),
                    frameNames = snd (parse_frames (get_prop raw ''frames''))\<rparr>)"

text \<open>
  \<^verbatim>\<open>parseChgData(text)\<close>. The text is given by the outcome of \<^verbatim>\<open>JSON.parse(text)\<close>:
  \<open>Inl SyntaxError\<close> when the text is not JSON. The result \<open>None\<close> is \<^verbatim>\<open>null\<close>.
\<close>

definition parseChgData :: "js_error + json \<Rightarrow> ChgData option" where
  "parseChgData parsed =
     (case parsed of
        Inl err \<Rightarrow> None
      | Inr raw \<Rightarrow> (case parse_body raw of Inl err \<Rightarrow> None | Inr d \<Rightarrow> Some d))"

section \<open>The outline provider's model and the state store (chgOutlineProvider.ts, chgState.ts)\<close>

text \<open>
  \<^verbatim>\<open>ChgOutlineProvider.loadFromDocument\<close>: the provider's only state is its \<^verbatim>\<open>data\<close> field
  (\<open>None\<close> is \<^verbatim>\<open>null\<close>). The function returns the flag and the field after the call.
\<close>

definition loadFromDocument :: "js_error + json \<Rightarrow> ChgData option \<Rightarrow> bool \<times> ChgData option" where
  "loadFromDocument doc provider_data =
     (let parsed = parseChgData doc
      in (parsed \<noteq> None, if parsed \<noteq> None then parsed else provider_data))"

datatype SelectedKind = NODE | EDGE | PATH

text \<open>Fields \<open>path_nodes\<close> and \<open>path_edges\<close> are the source's \<^verbatim>\<open>nodes\<close> and \<^verbatim>\<open>edges\<close>.\<close>

record SimPath =
  targetNode :: string
  path_nodes :: "string list"
  path_edges :: "string list"
  cost :: number
  numEdges :: number
  numNodes :: number

text \<open>Field \<open>sel_label\<close> is the source's \<^verbatim>\<open>label\<close>; \<open>None\<close> is \<^verbatim>\<open>null\<close> throughout.\<close>

record ChgState =
  kind :: "SelectedKind option"
  sel_label :: "string option"
  data :: "ChgData option"
  currentFrame :: "string option"
  layout :: string
  simPath :: "SimPath option"

definition setSelection :: "SelectedKind option \<Rightarrow> string option \<Rightarrow> ChgState \<Rightarrow> ChgState" where
  "setSelection k l st = st\<lparr>kind := k, sel_label := l\<rparr>"

definition setSimPath :: "SimPath option \<Rightarrow> ChgState \<Rightarrow> ChgState" where
  "setSimPath p st = st\<lparr>simPath := p\<rparr>"

definition setCurrentFrame :: "string option \<Rightarrow> ChgState \<Rightarrow> ChgState" where
  "setCurrentFrame f st = st\<lparr>currentFrame := f\<rparr>"

text \<open>\<^verbatim>\<open>ChgState.setData\<close>, before the change event fires. \<^verbatim>\<open>!this._currentFrame\<close> holds
  for \<^verbatim>\<open>null\<close> and for the empty string.\<close>

definition setData :: "ChgData option \<Rightarrow> ChgState \<Rightarrow> ChgState" where
  "setData d st =
     (let st1 = st\<lparr>data := d\<rparr>
      in case d of
           Some dat \<Rightarrow>
             if length (frameNames dat) > 0
             then (case currentFrame st1 of
                     None \<Rightarrow> st1\<lparr>currentFrame := Some (frameNames dat ! 0)\<rparr>
                   | Some cf \<Rightarrow>
                       if cf = [] \<or> cf \<notin> set (frameNames dat)
                       then st1\<lparr>currentFrame := Some (frameNames dat ! 0)\<rparr>
                       else st1)
             else st1
         | None \<Rightarrow> st1\<lparr>currentFrame := None\<rparr>)"

text \<open>The listener that \<^verbatim>\<open>ChgSimulateProvider.resolveWebviewView\<close> registers on the data
  change event (chgSimulateProvider.ts).\<close>

definition onDataChange :: "ChgState \<Rightarrow> ChgState" where
  "onDataChange st =
     (case simPath st of
        None \<Rightarrow> st
      | Some sp \<Rightarrow>
          if \<not> (case data st of
                   Some d \<Rightarrow> list_ex (\<lambda>n. label n = targetNode sp) (nodes d)
                 | None \<Rightarrow> False)
          then setSimPath None st
          else st)"

text \<open>\<^verbatim>\<open>setData\<close> together with the event it fires: the listener runs before
  \<^verbatim>\<open>setData\<close> returns.\<close>

definition setData_fire :: "ChgData option \<Rightarrow> ChgState \<Rightarrow> ChgState" where
  "setData_fire d st = onDataChange (setData d st)"

text \<open>\<^verbatim>\<open>updateFromDocument\<close> of the extension's \<^verbatim>\<open>activate\<close>, for a \<^verbatim>\<open>.chg\<close> document: the
  pair is the provider's model and the store.\<close>

definition updateFromDocument ::
  "js_error + json \<Rightarrow> ChgData option \<times> ChgState \<Rightarrow> ChgData option \<times> ChgState" where
  "updateFromDocument doc ps =
     (let provider_data = snd (loadFromDocument doc (fst ps))
      in (provider_data, setData_fire provider_data (snd ps)))"

section \<open>The details view (chgDetailsProvider.ts)\<close>



section \<open>Editing the raw document (chgDetailsProvider.ts, chgSimulateProvider.ts)\<close>

text \<open>
  The edit handlers parse the document text, change the parsed value in place and write
  \<^verbatim>\<open>JSON.stringify\<close> of it back. \<^verbatim>\<open>JSON.parse\<close> returns a tree without sharing, so a change
  in place is a functional update of the tree. An exception leaves the function before
  the write: the result \<open>Inl\<close> stands for "document and store unchanged". The modules are
  strict code, where assigning a property of a primitive throws a TypeError.
\<close>

definition and_then :: "'e + 'a \<Rightarrow> ('a \<Rightarrow> 'e + 'b) \<Rightarrow> 'e + 'b" where
  "and_then r f = (case r of Inl err \<Rightarrow> Inl err | Inr x \<Rightarrow> f x)"

fun map_err :: "('a \<Rightarrow> 'e + 'b) \<Rightarrow> 'a list \<Rightarrow> 'e + 'b list" where
  "map_err f [] = Inr []"
| "map_err f (x # xs) =
     and_then (f x) (\<lambda>y. and_then (map_err f xs) (\<lambda>ys. Inr (y # ys)))"

text \<open>\<^verbatim>\<open>obj.k = v\<close> for a fixed name \<^verbatim>\<open>k\<close> and \<^verbatim>\<open>obj\<close> not null. On an array the property
  exists in memory only: \<^verbatim>\<open>JSON.stringify\<close> writes the elements of an array and nothing
  else.\<close>

fun put_prop :: "json \<Rightarrow> string \<Rightarrow> json \<Rightarrow> js_error + json" where
  "put_prop (JObj kvs) k v = Inr (JObj (AList.update k v kvs))"
| "put_prop (JArr xs) k v = Inr (JArr xs)"
| "put_prop _ k v = Inl TypeError"

text \<open>\<^verbatim>\<open>if (!Array.isArray(obj.k)) { obj.k = []; } return obj.k;\<close> for \<^verbatim>\<open>obj\<close> not null:
  the object after the statement and the array returned.\<close>

definition array_of :: "json \<Rightarrow> string \<Rightarrow> js_error + json \<times> json list" where
  "array_of obj k =
     (case get_prop obj k of
        Some (JArr xs) \<Rightarrow> Inr (obj, xs)
      | _ \<Rightarrow> and_then (put_prop obj k (JArr [])) (\<lambda>obj'. Inr (obj', [])))"

definition array_field :: "string \<Rightarrow> json \<Rightarrow> js_error + json \<times> json list" where
  "array_field k raw =
     (if raw = JNull then Inl TypeError
      else if truthy (get_prop raw ''hypergraph'')
      then and_then (array_of (the (get_prop raw ''hypergraph'')) k)
             (\<lambda>(h, xs). and_then (put_prop raw ''hypergraph'' h) (\<lambda>raw'. Inr (raw', xs)))
      else array_of raw k)"

text \<open>\<^verbatim>\<open>getNodes(raw)\<close> and \<^verbatim>\<open>getEdges(raw)\<close>: the document after the call and the array.\<close>

definition getNodes :: "json \<Rightarrow> js_error + json \<times> json list" where
  "getNodes raw = array_field ''nodes'' raw"

definition getEdges :: "json \<Rightarrow> js_error + json \<times> json list" where
  "getEdges raw = array_field ''edges'' raw"

text \<open>The array that \<^verbatim>\<open>getNodes\<close> or \<^verbatim>\<open>getEdges\<close> returned is the document's own: \<open>store_array\<close>
  puts the array, changed in place by the caller, back where it lives.\<close>

definition store_array :: "string \<Rightarrow> json \<Rightarrow> json list \<Rightarrow> json" where
  "store_array k raw xs =
     (if truthy (get_prop raw ''hypergraph'')
      then (case (raw, the (get_prop raw ''hypergraph'')) of
              (JObj rkvs, JObj hkvs) \<Rightarrow>
                JObj (AList.update ''hypergraph'' (JObj (AList.update k (JArr xs) hkvs)) rkvs)
            | _ \<Rightarrow> raw)
      else (case raw of JObj rkvs \<Rightarrow> JObj (AList.update k (JArr xs) rkvs) | _ \<Rightarrow> raw))"

text \<open>\<^verbatim>\<open>nodes.find(n => n.label === nodeLabel)\<close>: the index of the element found and its
  own properties (only an object has a \<^verbatim>\<open>label\<close>).\<close>

fun find_label :: "string \<Rightarrow> json list \<Rightarrow> js_error + (nat \<times> (string \<times> json) list) option" where
  "find_label l [] = Inr None"
| "find_label l (n # ns) =
     (case n of
        JNull \<Rightarrow> Inl TypeError
      | JObj kvs \<Rightarrow>
          if map_of kvs ''label'' = Some (JStr l) then Inr (Some (0, kvs))
          else and_then (find_label l ns) (\<lambda>r. Inr (map_option (\<lambda>(i, p). (Suc i, p)) r))
      | _ \<Rightarrow> and_then (find_label l ns) (\<lambda>r. Inr (map_option (\<lambda>(i, p). (Suc i, p)) r)))"

text \<open>\<^verbatim>\<open>_updateNode\<close>, branch \<^verbatim>\<open>field === 'label'\<close>: the body of the loop over the edges.\<close>

definition rename_in :: "string \<Rightarrow> string \<Rightarrow> json \<Rightarrow> json" where
  "rename_in nodeLabel newLabel s = (if s = JStr nodeLabel then JStr newLabel else s)"

definition rename_edge :: "string \<Rightarrow> string \<Rightarrow> json \<Rightarrow> js_error + json" where
  "rename_edge nodeLabel newLabel e =
     (case e of
        JNull \<Rightarrow> Inl TypeError
      | JObj kvs \<Rightarrow>
          (let kvs1 = (case map_of kvs ''source_nodes'' of
                         Some (JArr xs) \<Rightarrow>
                           AList.update ''source_nodes'' (JArr (map (rename_in nodeLabel newLabel) xs)) kvs
                       | _ \<Rightarrow> kvs);
               kvs2 = (case map_of kvs1 ''sources'' of
                         Some (JArr xs) \<Rightarrow>
                           AList.update ''sources'' (JArr (map (rename_in nodeLabel newLabel) xs)) kvs1
                       | _ \<Rightarrow> kvs1);
               kvs3 = (if map_of kvs2 ''target'' = Some (JStr nodeLabel)
                       then AList.update ''target'' (JStr newLabel) kvs2 else kvs2)
           in Inr (JObj kvs3))
      | _ \<Rightarrow> Inr e)"

text \<open>
  The body of the loop over the frames. A frame of the document is a value that
  \<^verbatim>\<open>JSON.parse\<close> made, in which \<^verbatim>\<open>__proto__\<close> can be an own property. When the frame has no
  entry for the old label, the test \<^verbatim>\<open>frameData[nodeLabel] !== undefined\<close> still holds for
  a label that names an inherited member. When the new label is \<^verbatim>\<open>__proto__\<close> and the
  frame has no own property of that name, the assignment creates no property and the
  entry of the old label is deleted all the same.
\<close>

definition rename_frame :: "string \<Rightarrow> string \<Rightarrow> json \<Rightarrow> js_error + json" where
  "rename_frame nodeLabel newLabel frameData =
     (case frameData of
        JObj kvs \<Rightarrow>
          (case map_of kvs nodeLabel of
             Some v \<Rightarrow>
               if newLabel = ''__proto__'' \<and> map_of kvs newLabel = None
               then Inr (JObj (AList.delete nodeLabel kvs))
               else Inr (JObj (AList.delete nodeLabel (AList.update newLabel v kvs)))
           | None \<Rightarrow>
               if nodeLabel \<in> set object_prototype_names then Inl Unmodelled
               else Inr frameData)
      | JArr xs \<Rightarrow> Inl Unmodelled
      | JStr s \<Rightarrow> if s = [] then Inr frameData else Inl Unmodelled
      | JNum t \<Rightarrow> if t = ''0'' then Inr frameData else Inl Unmodelled
      | JBool b \<Rightarrow> if b then Inl Unmodelled else Inr frameData
      | JNull \<Rightarrow> Inr frameData)"

definition rename_frames :: "string \<Rightarrow> string \<Rightarrow> json \<Rightarrow> js_error + json" where
  "rename_frames nodeLabel newLabel raw =
     (if \<not> truthy (get_prop raw ''frames'') then Inr raw
      else
        (case the (get_prop raw ''frames'') of
           JObj fkvs \<Rightarrow>
             and_then
               (map_err (\<lambda>(k, fd). and_then (rename_frame nodeLabel newLabel fd) (\<lambda>fd'. Inr (k, fd')))
                        fkvs)
               (\<lambda>fkvs'. put_prop raw ''frames'' (JObj fkvs'))
         | JArr xs \<Rightarrow>
             and_then (map_err (rename_frame nodeLabel newLabel) xs)
               (\<lambda>xs'. put_prop raw ''frames'' (JArr xs'))
         | JStr s \<Rightarrow> Inl Unmodelled
         | _ \<Rightarrow> Inr raw))"

text \<open>
  \<^verbatim>\<open>_updateNode(raw, nodeLabel, 'label', value)\<close> with \<^verbatim>\<open>newLabel = String(value)\<close>: the
  document that \<^verbatim>\<open>_applyUpdate\<close> then writes, and the store.
\<close>

definition updateNode_label ::
  "json \<Rightarrow> string \<Rightarrow> string \<Rightarrow> ChgState \<Rightarrow> js_error + json \<times> ChgState" where
  "updateNode_label raw nodeLabel newLabel st =
     and_then (getNodes raw) (\<lambda>(raw1, ns).
     and_then (find_label nodeLabel ns) (\<lambda>found.
       case found of
         None \<Rightarrow> Inr (raw1, st)
       | Some (i, nkvs) \<Rightarrow>
           and_then (getEdges raw1) (\<lambda>(raw2, es).
           and_then (map_err (rename_edge nodeLabel newLabel) es) (\<lambda>es'.
           and_then (rename_frames nodeLabel newLabel (store_array ''edges'' raw2 es')) (\<lambda>raw3.
             Inr (store_array ''nodes'' raw3
                    (ns[i := JObj (AList.update ''label'' (JStr newLabel) nkvs)]),
                  setSelection (Some NODE) (Some newLabel) st))))))"

text \<open>
  The outcome of the simulation script as \<^verbatim>\<open>_runScript\<close> types it (the fields that
  \<^verbatim>\<open>_simulate\<close> reads); \<open>None\<close> is an absent field.
\<close>

record SimResult =
  res_value :: "json option"
  res_cost :: "number option"
  res_error :: "string option"
  target_node :: "string option"
  res_path_nodes :: "string list option"
  res_path_edges :: "string list option"
  num_nodes :: "number option"
  num_edges :: "number option"

text \<open>\<^verbatim>\<open>node.value = value\<close> as the written document shows it: \<^verbatim>\<open>JSON.stringify\<close> leaves out a
  property whose value is \<^verbatim>\<open>undefined\<close> and prints \<^verbatim>\<open>[undefined]\<close> as \<^verbatim>\<open>[null]\<close>.\<close>

definition set_value :: "json option \<Rightarrow> (string \<times> json) list \<Rightarrow> (string \<times> json) list" where
  "set_value v nkvs =
     (case v of Some x \<Rightarrow> AList.update ''value'' x nkvs | None \<Rightarrow> AList.delete ''value'' nkvs)"

definition one_element :: "json option \<Rightarrow> json" where
  "one_element v = JArr [case v of Some x \<Rightarrow> x | None \<Rightarrow> JNull]"

text \<open>
  The three statements that store into \<^verbatim>\<open>raw.frames[frameKey][nodeLabel]\<close>. An array
  as \<^verbatim>\<open>raw\<close> takes the new properties in memory only. The frames and the frame are
  values that \<^verbatim>\<open>JSON.parse\<close> made or object literals made here, so their prototype is
  \<^verbatim>\<open>Object.prototype\<close>:
  \<^item> when the frames have no own property \<^verbatim>\<open>frameKey\<close> and the key names an inherited
    member, \<^verbatim>\<open>!raw.frames[frameKey]\<close> is false, no frame is made and the store goes to the
    inherited member (\<open>Unmodelled\<close>);
  \<^item> when the label is \<^verbatim>\<open>__proto__\<close> and the frame has no own property of that name,
    the store sets the prototype of the frame and the frame gets no entry.
\<close>

definition write_frame :: "string \<Rightarrow> string \<Rightarrow> json option \<Rightarrow> json \<Rightarrow> js_error + json" where
  "write_frame frameKey nodeLabel v raw =
     (case raw of
        JObj rkvs \<Rightarrow>
          (case (if \<not> truthy (map_of rkvs ''frames'') then Some (JObj [])
                 else map_of rkvs ''frames'') of
             Some (JObj fkvs) \<Rightarrow>
               if map_of fkvs frameKey = None \<and> frameKey \<in> set object_prototype_names
               then Inl Unmodelled
               else
                 (case (if \<not> truthy (map_of fkvs frameKey) then Some (JObj [])
                        else map_of fkvs frameKey) of
                    Some (JObj kvs) \<Rightarrow>
                      Inr (JObj (AList.update ''frames''
                                   (JObj (AList.update frameKey
                                            (JObj (if nodeLabel = ''__proto__'' \<and>
                                                      map_of kvs nodeLabel = None
                                                   then kvs
                                                   else AList.update nodeLabel (one_element v) kvs))
                                            fkvs))
                                   rkvs))
                  | Some (JArr xs) \<Rightarrow> Inl Unmodelled
                  | _ \<Rightarrow> if nodeLabel = ''__proto__'' then Inl Unmodelled else Inl TypeError)
           | Some (JArr xs) \<Rightarrow> Inl Unmodelled
           | _ \<Rightarrow> Inl Unmodelled)
      | JArr xs \<Rightarrow> if frameKey \<in> set object_prototype_names then Inl Unmodelled else Inr raw
      | _ \<Rightarrow> Inl TypeError)"

text \<open>
  \<^verbatim>\<open>_writeSimulationResult\<close>. The document is given by the outcome of \<^verbatim>\<open>JSON.parse\<close> on
  its text. \<open>Inr None\<close> is a return before the write (the document keeps its text),
  \<open>Inr (Some raw)\<close> the value whose text is written.
\<close>

definition writeSimulationResult ::
  "js_error + json \<Rightarrow> string \<Rightarrow> json option \<Rightarrow> string \<Rightarrow> js_error + json option" where
  "writeSimulationResult doc nodeLabel v frameKey =
     (case doc of
        Inl err \<Rightarrow> Inr None
      | Inr raw \<Rightarrow>
          and_then (getNodes raw) (\<lambda>(raw1, ns).
          and_then (find_label nodeLabel ns) (\<lambda>found.
            case found of
              None \<Rightarrow> Inr None
            | Some (i, nkvs) \<Rightarrow>
                (let isConst = coalesce (map_of nkvs ''is_constant'') (map_of nkvs ''constant'');
                     in_node = store_array ''nodes'' raw1 (ns[i := JObj (set_value v nkvs)])
                 in if truthy isConst then Inr (Some in_node)
                    else if frameKey \<noteq> []
                    then and_then (write_frame frameKey nodeLabel v raw1)
                           (\<lambda>raw2. Inr (Some raw2))
                    else Inr (Some in_node)))))"

text \<open>The annotation that \<^verbatim>\<open>_simulate\<close> builds from the result, when the result has both
  \<^verbatim>\<open>target_node\<close> and \<^verbatim>\<open>path_nodes\<close>.\<close>

definition path_of_result :: "SimResult \<Rightarrow> SimPath option" where
  "path_of_result result =
     (case (target_node result, res_path_nodes result) of
        (Some t, Some pn) \<Rightarrow>
          Some \<lparr>targetNode = t, path_nodes = pn,
                path_edges = (case res_path_edges result of Some pe \<Rightarrow> pe | None \<Rightarrow> []),
                cost = (case res_cost result of Some c \<Rightarrow> c | None \<Rightarrow> ''0''),
                numEdges = (case num_edges result of Some c \<Rightarrow> c | None \<Rightarrow> ''0''),
                numNodes = (case num_nodes result of Some c \<Rightarrow> c | None \<Rightarrow> ''0'')\<rparr>
      | _ \<Rightarrow> None)"

text \<open>
  \<^verbatim>\<open>_simulate\<close> from the point where it reads the store: \<open>result\<close> is what the script
  returned and \<open>doc\<close> the document at the time of the write. The outcome is the document
  and the store when \<^verbatim>\<open>_simulate\<close> is done; the reparse that the host starts for the
  changed document is \<open>updateFromDocument\<close>, a step of its own.
\<close>

definition simulate ::
  "ChgState \<Rightarrow> SimResult \<Rightarrow> js_error + json \<Rightarrow> js_error + (js_error + json) \<times> ChgState" where
  "simulate st result doc =
     (case (kind st, sel_label st) of
        (Some NODE, Some l) \<Rightarrow>
          if l = [] then Inr (doc, st)
          else
            (let frameKey = (case currentFrame st of Some f \<Rightarrow> f | None \<Rightarrow> [])
             in if (case res_error result of Some msg \<Rightarrow> msg \<noteq> [] | None \<Rightarrow> False)
                then Inr (doc, st)
                else
                  and_then (writeSimulationResult doc l (res_value result) frameKey) (\<lambda>written.
                    Inr (case written of Some raw \<Rightarrow> Inr raw | None \<Rightarrow> doc,
                         case path_of_result result of
                           Some path \<Rightarrow> setSimPath (Some path) st
                         | None \<Rightarrow> st)))
      | _ \<Rightarrow> Inr (doc, st))"

section \<open>The graph view (the webview script in chgEditorProvider.ts)\<close>

text \<open>
  \<^verbatim>\<open>buildElements\<close> makes the descriptors that are handed to the graph library: for a node
  its id, label and type, for a link its id, source id and target id.
\<close>

datatype element =
    NodeEl string string string
  | LinkEl string string string

definition buildElements :: "ChgData option \<Rightarrow> element list" where
  "buildElements dat =
     (case dat of
        None \<Rightarrow> []
      | Some d \<Rightarrow>
          map (\<lambda>n. NodeEl (''n:'' @ label n) (label n) ''chg-node'') (nodes d) @
          concat (map (\<lambda>e.
              NodeEl (''e:'' @ edge_label e) (edge_label e) ''chg-edge'' #
              map (\<lambda>src. LinkEl (''se:'' @ edge_label e @ '':'' @ src_label src)
                                (''n:'' @ src_label src) (''e:'' @ edge_label e))
                  (filter (\<lambda>src. src_label src \<in> set (map label (nodes d))) (sources e)) @
              (if target e \<noteq> [] \<and> target e \<in> set (map label (nodes d))
               then [LinkEl (''te:'' @ edge_label e) (''e:'' @ edge_label e) (''n:'' @ target e)]
               else []))
            (edges d)))"

text \<open>
  The elements the library holds: the id, for a link its source and target ids (\<open>None\<close>
  for a node), and the classes.
\<close>

record CyEle =
  ele_id :: string
  ends :: "(string \<times> string) option"
  classes :: "string list"

definition getElementById :: "CyEle list \<Rightarrow> string \<Rightarrow> CyEle option" where
  "getElementById pool i = find (\<lambda>x. ele_id x = i) pool"

text \<open>
  \<^verbatim>\<open>cy.add\<close>: the library restores the nodes first and the links after them, and leaves
  out an element whose id is empty or taken, and a link whose source or target is not
  the id of an element it holds.
\<close>

fun add_ele :: "CyEle list \<Rightarrow> element \<Rightarrow> CyEle list" where
  "add_ele pool (NodeEl i l ty) =
     (if i = [] \<or> getElementById pool i \<noteq> None then pool
      else pool @ [\<lparr>ele_id = i, ends = None, classes = []\<rparr>])"
| "add_ele pool (LinkEl i s t) =
     (if i = [] \<or> getElementById pool i \<noteq> None then pool
      else if getElementById pool s = None \<or> getElementById pool t = None then pool
      else pool @ [\<lparr>ele_id = i, ends = Some (s, t), classes = []\<rparr>])"

fun is_link :: "element \<Rightarrow> bool" where
  "is_link (LinkEl i s t) = True"
| "is_link (NodeEl i l ty) = False"

definition cy_add :: "CyEle list \<Rightarrow> element list \<Rightarrow> CyEle list" where
  "cy_add pool els = foldl add_ele pool (filter (\<lambda>el. \<not> is_link el) els @ filter is_link els)"

text \<open>\<^verbatim>\<open>hasClass\<close> on what \<^verbatim>\<open>getElementById\<close>, \<^verbatim>\<open>source()\<close> or \<^verbatim>\<open>target()\<close> returned (false
  on the empty collection), and \<^verbatim>\<open>cy.getElementById(i).addClass(c)\<close>.\<close>

definition hasClass :: "string \<Rightarrow> CyEle option \<Rightarrow> bool" where
  "hasClass c x = (case x of Some e \<Rightarrow> c \<in> set (classes e) | None \<Rightarrow> False)"

definition addClass :: "string \<Rightarrow> string \<Rightarrow> CyEle list \<Rightarrow> CyEle list" where
  "addClass c i pool =
     map (\<lambda>x. if ele_id x = i \<and> c \<notin> set (classes x) then x\<lparr>classes := classes x @ [c]\<rparr> else x)
         pool"

definition removeClass :: "string \<Rightarrow> CyEle list \<Rightarrow> CyEle list" where
  "removeClass c pool = map (\<lambda>x. x\<lparr>classes := removeAll c (classes x)\<rparr>) pool"

text \<open>The body of \<^verbatim>\<open>cy.edges().forEach\<close> in \<^verbatim>\<open>applySimPath\<close>.\<close>

definition mark_link :: "CyEle list \<Rightarrow> CyEle \<Rightarrow> CyEle list" where
  "mark_link pool e =
     (case ends e of
        None \<Rightarrow> pool
      | Some (s, t) \<Rightarrow>
          if hasClass ''sim-path'' (getElementById pool s) \<and>
             hasClass ''sim-path'' (getElementById pool t)
          then addClass ''sim-path'' (ele_id e) pool
          else pool)"

text \<open>\<^verbatim>\<open>applySimPath(path)\<close>, the part that sets classes.\<close>

definition applySimPath :: "SimPath \<Rightarrow> CyEle list \<Rightarrow> CyEle list" where
  "applySimPath path pool =
     (let p0 = removeClass ''sim-path'' pool;
          p1 = foldl (\<lambda>p nodeLabel. addClass ''sim-path'' (''n:'' @ nodeLabel) p) p0 (path_nodes path);
          p2 = foldl (\<lambda>p edgeLabel. addClass ''sim-path'' (''e:'' @ edgeLabel) p) p1 (path_edges path)
      in foldl mark_link p2 p2)"

text \<open>The handler of the \<^verbatim>\<open>setData\<close> message, up to the overlay: the elements are rebuilt
  and the path, when there is one, is applied again.\<close>

definition on_setData :: "ChgData option \<Rightarrow> SimPath option \<Rightarrow> CyEle list" where
  "on_setData dat currentSimPath =
     (let pool = cy_add [] (buildElements dat)
      in case currentSimPath of Some path \<Rightarrow> applySimPath path pool | None \<Rightarrow> pool)"

section \<open>Example inputs\<close>

text \<open>The store as \<^verbatim>\<open>new ChgState()\<close> leaves it.\<close>

definition initial_state :: ChgState where
  "initial_state =
     \<lparr>kind = None, sel_label = None, data = None, currentFrame = None,
      layout = ''grid'', simPath = None\<rparr>"

text \<open>The document and the simulation result of the end-to-end scenario of the
  specification, in the flat and in the nested shape.\<close>

definition scenario_nodes :: json where
  "scenario_nodes =
     JArr [JObj [(''label'', JStr ''a''), (''is_constant'', JBool True), (''value'', JNum ''2'')],
           JObj [(''label'', JStr ''b'')]]"

definition scenario_edges :: json where
  "scenario_edges =
     JArr [JObj [(''label'', JStr ''e1''), (''source_nodes'', JArr [JStr ''a'']),
                 (''target'', JStr ''b''), (''weight'', JNum ''1'')]]"

definition scenario_doc :: json where
  "scenario_doc =
     JObj [(''nodes'', scenario_nodes), (''edges'', scenario_edges),
           (''frames'', JObj [(''f0'', JObj [])])]"

definition scenario_nested :: json where
  "scenario_nested =
     JObj [(''hypergraph'', JObj [(''nodes'', scenario_nodes), (''edges'', scenario_edges)]),
           (''frames'', JObj [(''f0'', JObj [])])]"

definition scenario_data :: ChgData where
  "scenario_data =
     \<lparr>nodes = [\<lparr>label = ''a'', val = Some (JNum ''2''), is_constant = Some (JBool True),
                 description = None, units = None, node_constant = Some (JBool True)\<rparr>,
               \<lparr>label = ''b'', val = None, is_constant = None,
                 description = None, units = None, node_constant = None\<rparr>],
      edges = [\<lparr>edge_label = ''e1'', weight = Some (JNum ''1''), edge_constant = None,
                 sources = [\<lparr>handle = ''0'', src_label = ''a''\<rparr>], target = ''b'',
                 rel = None\<rparr>],
      frames = [(''f0'', [])], frameNames = [''f0'']\<rparr>"

definition scenario_result :: SimResult where
  "scenario_result =
     \<lparr>res_value = Some (JNum ''4''), res_cost = Some ''1'', res_error = None,
      target_node = Some ''b'', res_path_nodes = Some [''a'', ''b''],
      res_path_edges = Some [''e1''], num_nodes = Some ''2'', num_edges = Some ''1''\<rparr>"

definition scenario_path :: SimPath where
  "scenario_path =
     \<lparr>targetNode = ''b'', path_nodes = [''a'', ''b''], path_edges = [''e1''],
      cost = ''1'', numEdges = ''1'', numNodes = ''2''\<rparr>"









text \<open>A document whose edge \<^verbatim>\<open>e1\<close> keeps its sources as an object from handle to label and
  whose edge \<^verbatim>\<open>e2\<close> keeps them as an array, and the store with node \<^verbatim>\<open>x\<close> selected.\<close>

definition keyed_doc :: json where
  "keyed_doc =
     JObj [(''nodes'', JArr [JObj [(''label'', JStr ''x'')], JObj [(''label'', JStr ''y'')]]),
           (''edges'', JArr [JObj [(''label'', JStr ''e1''),
                                   (''source_nodes'', JObj [(''in'', JStr ''x'')]),
                                   (''target'', JStr ''y'')],
                             JObj [(''label'', JStr ''e2''),
                                   (''source_nodes'', JArr [JStr ''x'']),
                                   (''target'', JStr ''x'')]]),
           (''frames'', JObj [(''f0'', JObj [(''x'', JArr [JNum ''3''])])])]"

definition x_selected :: ChgState where
  "x_selected = setSelection (Some NODE) (Some ''x'') initial_state"

text \<open>The store of the scenario when node \<^verbatim>\<open>b\<close> is selected and the document is loaded.\<close>

definition b_selected :: ChgState where
  "b_selected = setData_fire (Some scenario_data) (setSelection (Some NODE) (Some ''b'') initial_state)"

text \<open>The document of the scenario after node \<^verbatim>\<open>b\<close> is removed.\<close>

definition scenario_without_b :: json where
  "scenario_without_b =
     JObj [(''nodes'', JArr [JObj [(''label'', JStr ''a''), (''is_constant'', JBool True),
                                   (''value'', JNum ''2'')]]),
           (''edges'', scenario_edges), (''frames'', JObj [(''f0'', JObj [])])]"

text \<open>A path that holds node \<^verbatim>\<open>b\<close> and edge \<^verbatim>\<open>e1\<close> of the scenario but not node \<^verbatim>\<open>a\<close>.\<close>

definition one_sided_path :: SimPath where
  "one_sided_path = scenario_path\<lparr>path_nodes := [''b'']\<rparr>"

text \<open>A document with two nodes of one label and the edge of the scenario.\<close>

definition duplicate_nodes :: "json list" where
  "duplicate_nodes =
     [JObj [(''label'', JStr ''a'')], JObj [(''label'', JStr ''a''), (''value'', JNum ''1'')]]"

definition duplicate_doc :: json where
  "duplicate_doc = JObj [(''nodes'', JArr duplicate_nodes), (''edges'', scenario_edges)]"

definition empty_data :: ChgData where
  "empty_data = \<lparr>nodes = [], edges = [], frames = [], frameNames = []\<rparr>"

section \<open>Notions used in the proofs\<close>

text \<open>An edge with a string label whose sources \<^verbatim>\<open>String\<close> cannot convert.\<close>

definition unprintable :: "json \<Rightarrow> bool" where
  "unprintable e \<longleftrightarrow>
     (case get_prop e ''label'' of Some (JStr l) \<Rightarrow> True | _ \<Rightarrow> False) \<and>
     parse_sources (coalesce (get_prop e ''source_nodes'') (get_prop e ''sources'')) = None"

text \<open>The ids that \<^verbatim>\<open>buildElements\<close> gives to nodes and to links begin differently, and the
  library holds no two elements with one id. \<open>good_shape\<close> says so of the list of ids and
  ends of the elements held.\<close>

definition node_id :: "string \<Rightarrow> bool" where
  "node_id i \<longleftrightarrow> (\<exists>l. i = ''n:'' @ l \<or> i = ''e:'' @ l)"

definition link_id :: "string \<Rightarrow> bool" where
  "link_id i \<longleftrightarrow> (\<exists>l. i = ''se:'' @ l \<or> i = ''te:'' @ l)"

definition good_shape :: "(string \<times> (string \<times> string) option) list \<Rightarrow> bool" where
  "good_shape sh \<longleftrightarrow>
     distinct (map fst sh) \<and>
     (\<forall>i s t. (i, Some (s, t)) \<in> set sh \<longrightarrow> link_id i \<and> node_id s \<and> node_id t)"

fun good_el :: "element \<Rightarrow> bool" where
  "good_el (NodeEl i l ty) = True"
| "good_el (LinkEl i s t) = (link_id i \<and> node_id s \<and> node_id t)"

abbreviation shape :: "CyEle \<Rightarrow> string \<times> (string \<times> string) option" where
  "shape x \<equiv> (ele_id x, ends x)"

section \<open>Evaluation of the examples\<close>

lemma dec_digits [simp]: "dec 0 = ''0''" "dec 1 = ''1''" "dec 2 = ''2''"
  by (simp_all add: dec.simps digit_def)

lemma parse_scenario_doc: "parseChgData (Inr scenario_doc) = Some scenario_data"
  by (simp add: parseChgData_def parse_body_def scenario_doc_def scenario_nodes_def
        scenario_edges_def scenario_data_def coalesce_def parse_nodes_def List.map_filter_def
        parse_node_def parse_sources_def parse_frames_def parse_frame_def enumerate_eq_zip
        Let_def)

lemma parse_scenario_without_b:
  "parseChgData (Inr scenario_without_b) = Some (scenario_data\<lparr>nodes := [hd (nodes scenario_data)]\<rparr>)"
  by (simp add: parseChgData_def parse_body_def scenario_without_b_def
        scenario_edges_def scenario_data_def coalesce_def parse_nodes_def List.map_filter_def
        parse_node_def parse_sources_def parse_frames_def parse_frame_def enumerate_eq_zip
        Let_def)

lemma coalesce_same: "coalesce a a = a"
  by (simp add: coalesce_def)

section \<open>The parser\<close>

text \<open>The one flag of a node: \<^verbatim>\<open>is_constant\<close> unless it is null or absent, the legacy
  \<^verbatim>\<open>constant\<close> in that case; both fields of the canonical node hold it.\<close>

lemma parse_node_flag:
  assumes "get_prop n ''label'' = Some (JStr l)"
  shows "\<exists>node. parse_node n = Some node \<and> is_constant node = node_constant node \<and>
           is_constant node =
             (if nullish (get_prop n ''is_constant'') then get_prop n ''constant''
              else get_prop n ''is_constant'')"
  using assms by (simp add: parse_node_def Let_def coalesce_def)

text \<open>
  Claim C10. When a raw node has both \<^verbatim>\<open>is_constant\<close> and the legacy \<^verbatim>\<open>constant\<close>, neither of
  them null, the parser takes the value of \<^verbatim>\<open>is_constant\<close> as the one flag, and the
  canonical node carries that value in both of its fields \<open>is_constant\<close> and
  \<open>node_constant\<close>; a reader that resolves the flag again, as \<^verbatim>\<open>_getNodeValue\<close> does, gets
  the same value.
\<close>

theorem parse_node_prefers_is_constant:
  assumes lab: "get_prop n ''label'' = Some (JStr l)"
    and ic: "get_prop n ''is_constant'' = Some v" "v \<noteq> JNull"
    and lc: "get_prop n ''constant'' = Some w" "w \<noteq> JNull"
  shows "\<exists>node. parse_node n = Some node \<and> label node = l \<and>
           is_constant node = Some v \<and> node_constant node = Some v \<and>
           coalesce (is_constant node) (node_constant node) = Some v"
proof -
  have "\<not> nullish (Some v)" using ic(2) by (cases v) simp_all
  then have "coalesce (get_prop n ''is_constant'') (get_prop n ''constant'') = Some v"
    by (simp add: coalesce_def ic(1))
  then show ?thesis using lab by (simp add: parse_node_def Let_def coalesce_same)
qed

theorem parse_node_prefers_is_constant_witness:
  "\<exists>node. parse_node (JObj [(''label'', JStr ''a''), (''is_constant'', JBool False),
                              (''constant'', JBool True)]) = Some node \<and>
          label node = ''a'' \<and> is_constant node = Some (JBool False) \<and>
          node_constant node = Some (JBool False) \<and>
          coalesce (is_constant node) (node_constant node) = Some (JBool False)"
  using parse_node_prefers_is_constant
          [of "JObj [(''label'', JStr ''a''), (''is_constant'', JBool False),
                     (''constant'', JBool True)]" "''a''" "JBool False" "JBool True"]
  by simp

text \<open>
  Claim C6. A flat document and a nested document with the same \<^verbatim>\<open>nodes\<close>, \<^verbatim>\<open>edges\<close> and
  \<^verbatim>\<open>frames\<close> (the nested one holding \<^verbatim>\<open>nodes\<close> and \<^verbatim>\<open>edges\<close> under \<^verbatim>\<open>hypergraph\<close>) parse to
  the same result, so to equal nodes, edges, frames and frame names.
\<close>

theorem flat_nested_same_model:
  assumes "get_prop flat ''hypergraph'' = None" and "flat \<noteq> JNull"
    and "get_prop nested ''hypergraph'' = Some hg" and "\<not> nullish (Some hg)"
    and "get_prop hg ''nodes'' = get_prop flat ''nodes''"
    and "get_prop hg ''edges'' = get_prop flat ''edges''"
    and "get_prop nested ''frames'' = get_prop flat ''frames''"
  shows "parseChgData (Inr nested) = parseChgData (Inr flat)"
proof -
  have n: "nested \<noteq> JNull" using assms(3) by auto
  have hn: "coalesce (get_prop nested ''hypergraph'') (Some nested) = Some hg"
    using assms(3,4) by (simp add: coalesce_def)
  have hf: "coalesce (get_prop flat ''hypergraph'') (Some flat) = Some flat"
    using assms(1) by (simp add: coalesce_def)
  have "parse_body nested = parse_body flat"
    using n assms(2)
    by (simp add: parse_body_def hn hf Let_def assms(5,6,7) cong: sum.case_cong)
  then show ?thesis by (simp add: parseChgData_def)
qed

theorem flat_nested_same_model_witness:
  "parseChgData (Inr scenario_nested) = parseChgData (Inr scenario_doc) \<and>
   parseChgData (Inr scenario_doc) = Some scenario_data"
  using flat_nested_same_model
          [of scenario_doc scenario_nested
              "JObj [(''nodes'', scenario_nodes), (''edges'', scenario_edges)]"]
        parse_scenario_doc
  by (simp add: scenario_doc_def scenario_nested_def)

section \<open>The state store\<close>

text \<open>
  Claim C3. When the data snapshot is set while a simulation path is active, the listener
  run by that same \<^verbatim>\<open>setData\<close> keeps the path if a node of the new snapshot has the
  path's \<^verbatim>\<open>targetNode\<close> as its label, and clears it if none has (also when the snapshot
  is \<^verbatim>\<open>null\<close>).
\<close>

theorem simPath_cleared_iff_target_gone:
  assumes "simPath st = Some sp"
  shows "simPath (setData_fire d st) =
           (if \<exists>dat. d = Some dat \<and> (\<exists>n\<in>set (nodes dat). label n = targetNode sp)
            then Some sp else None)"
proof -
  have sp: "\<And>d. simPath (setData d st) = Some sp" and dd: "\<And>d. data (setData d st) = d"
    using assms by (auto simp: setData_def Let_def split: option.splits)
  show ?thesis
    unfolding setData_fire_def onDataChange_def sp dd
    by (cases d) (auto simp: setSimPath_def list_ex_iff sp)
qed

theorem simPath_cleared_iff_target_gone_witness:
  "simPath (b_selected\<lparr>simPath := Some scenario_path\<rparr>) = Some scenario_path \<and>
   simPath (snd (updateFromDocument (Inr scenario_doc)
                   (Some scenario_data, b_selected\<lparr>simPath := Some scenario_path\<rparr>)))
     = Some scenario_path \<and>
   simPath (snd (updateFromDocument (Inr scenario_without_b)
                   (Some scenario_data, b_selected\<lparr>simPath := Some scenario_path\<rparr>)))
     = None"
proof -
  let ?st = "b_selected\<lparr>simPath := Some scenario_path\<rparr>"
  let ?gone = "scenario_data\<lparr>nodes := [hd (nodes scenario_data)]\<rparr>"
  have a: "simPath ?st = Some scenario_path" by simp
  have u1: "snd (updateFromDocument (Inr scenario_doc) (Some scenario_data, ?st)) =
              setData_fire (Some scenario_data) ?st"
    by (simp add: updateFromDocument_def loadFromDocument_def parse_scenario_doc Let_def)
  have u2: "snd (updateFromDocument (Inr scenario_without_b) (Some scenario_data, ?st)) =
              setData_fire (Some ?gone) ?st"
    by (simp add: updateFromDocument_def loadFromDocument_def parse_scenario_without_b Let_def)
  have t: "targetNode scenario_path = ''b''" by (simp add: scenario_path_def)
  have in1: "\<exists>n\<in>set (nodes scenario_data). label n = ''b''"
    by (simp add: scenario_data_def)
  have out2: "\<not> (\<exists>n\<in>set (nodes ?gone). label n = ''b'')"
    by (simp add: scenario_data_def)
  show ?thesis
    using simPath_cleared_iff_target_gone [OF a, of "Some scenario_data"]
          simPath_cleared_iff_target_gone [OF a, of "Some ?gone"]
    unfolding u1 u2 t using in1 out2 a by simp
qed

section \<open>The details view\<close>






section \<open>The default frame\<close>

text \<open>
  Claim C7, as stated, at a store whose current frame is the empty string: the new
  snapshot has frames and the empty string is among its frame names, yet \<^verbatim>\<open>setData\<close>
  moves the current frame to the first name.
\<close>

theorem setData_empty_frame_name_counterexample:
  "currentFrame (initial_state\<lparr>currentFrame := Some ''''\<rparr>) = Some '''' \<and>
   '''' \<in> set (frameNames (scenario_data\<lparr>frameNames := [''a'', '''']\<rparr>)) \<and>
   currentFrame (setData (Some (scenario_data\<lparr>frameNames := [''a'', '''']\<rparr>))
                   (initial_state\<lparr>currentFrame := Some ''''\<rparr>)) = Some ''a''"
  by (simp add: setData_def initial_state_def scenario_data_def)

text \<open>
  Claim C7, amended. After \<^verbatim>\<open>setData\<close> the current frame is \<^verbatim>\<open>null\<close> when the snapshot is
  \<^verbatim>\<open>null\<close>; it is the first frame name when the snapshot has a frame name and the frame
  that was current is \<^verbatim>\<open>null\<close>, the empty string or not among the frame names; in every
  other case it is the frame that was current.
\<close>

theorem setData_currentFrame:
  "currentFrame (setData d st) =
     (case d of
        None \<Rightarrow> None
      | Some dat \<Rightarrow>
          if frameNames dat \<noteq> [] \<and>
             (case currentFrame st of None \<Rightarrow> True
              | Some cf \<Rightarrow> cf = [] \<or> cf \<notin> set (frameNames dat))
          then Some (hd (frameNames dat))
          else currentFrame st)"
  by (auto simp: setData_def Let_def hd_conv_nth split: option.splits)

theorem setData_currentFrame_witness:
  "currentFrame (setData (Some scenario_data) initial_state) = Some ''f0'' \<and>
   currentFrame (setData (Some scenario_data) (initial_state\<lparr>currentFrame := Some ''gone''\<rparr>))
     = Some ''f0'' \<and>
   currentFrame (setData (Some (scenario_data\<lparr>frameNames := [''f0'', ''f1'']\<rparr>))
                   (initial_state\<lparr>currentFrame := Some ''f1''\<rparr>)) = Some ''f1'' \<and>
   currentFrame (setData (Some (scenario_data\<lparr>frameNames := []\<rparr>))
                   (initial_state\<lparr>currentFrame := Some ''f1''\<rparr>)) = Some ''f1'' \<and>
   currentFrame (setData None (initial_state\<lparr>currentFrame := Some ''f1''\<rparr>)) = None"
  using setData_currentFrame [of "Some scenario_data" initial_state]
        setData_currentFrame
          [of "Some scenario_data" "initial_state\<lparr>currentFrame := Some ''gone''\<rparr>"]
        setData_currentFrame
          [of "Some (scenario_data\<lparr>frameNames := [''f0'', ''f1'']\<rparr>)"
              "initial_state\<lparr>currentFrame := Some ''f1''\<rparr>"]
        setData_currentFrame
          [of "Some (scenario_data\<lparr>frameNames := []\<rparr>)"
              "initial_state\<lparr>currentFrame := Some ''f1''\<rparr>"]
        setData_currentFrame [of None "initial_state\<lparr>currentFrame := Some ''f1''\<rparr>"]
  by (simp add: initial_state_def scenario_data_def)

section \<open>Parse failures\<close>

text \<open>
  Claim C4, as stated, at the valid JSON text \<^verbatim>\<open>{"x": 1}\<close>, which has nothing of a
  document: the parser returns a model with no nodes, edges or frames, not \<^verbatim>\<open>null\<close>, and
  \<^verbatim>\<open>loadFromDocument\<close> puts it in the place of the model loaded before.
\<close>

theorem parse_unshaped_json_counterexample:
  "parseChgData (Inr (JObj [(''x'', JNum ''1'')])) = Some empty_data \<and>
   loadFromDocument (Inr (JObj [(''x'', JNum ''1'')])) (Some scenario_data) =
     (True, Some empty_data)"
  by (simp add: parseChgData_def parse_body_def loadFromDocument_def coalesce_def
        parse_frames_def Let_def empty_data_def)

text \<open>
  Claim C4, amended. The parser returns a model or \<^verbatim>\<open>null\<close> and raises nothing: it returns
  \<^verbatim>\<open>null\<close> on text that is not JSON and on the JSON text \<^verbatim>\<open>null\<close>, and whenever it returns
  \<^verbatim>\<open>null\<close> \<^verbatim>\<open>loadFromDocument\<close> reports failure and keeps the model loaded before. Valid
  JSON other than \<^verbatim>\<open>null\<close> that has none of \<^verbatim>\<open>hypergraph\<close>, \<^verbatim>\<open>nodes\<close>, \<^verbatim>\<open>edges\<close> and \<^verbatim>\<open>frames\<close>
  is no failure: it parses to the model with no nodes, edges or frames.
\<close>

theorem parse_failure_keeps_model:
  "parseChgData (Inl err) = None \<and>
   parseChgData (Inr JNull) = None \<and>
   (parseChgData doc = None \<longrightarrow> loadFromDocument doc prev = (False, prev)) \<and>
   (raw \<noteq> JNull \<and> get_prop raw ''hypergraph'' = None \<and> get_prop raw ''nodes'' = None \<and>
    get_prop raw ''edges'' = None \<and> get_prop raw ''frames'' = None \<longrightarrow>
      parseChgData (Inr raw) = Some empty_data)"
  by (simp add: parseChgData_def parse_body_def loadFromDocument_def coalesce_def
        parse_frames_def Let_def empty_data_def)

theorem parse_failure_keeps_model_witness:
  "parseChgData (Inl SyntaxError) = None \<and>
   loadFromDocument (Inl SyntaxError) (Some scenario_data) = (False, Some scenario_data) \<and>
   loadFromDocument (Inr JNull) (Some scenario_data) = (False, Some scenario_data) \<and>
   parseChgData (Inr (JArr [])) = Some empty_data"
  using parse_failure_keeps_model [of SyntaxError "Inl SyntaxError" "Some scenario_data" "JArr []"]
        parse_failure_keeps_model [of SyntaxError "Inr JNull" "Some scenario_data" "JArr []"]
  by simp

section \<open>Node labels\<close>

lemma labels_parse_nodes:
  "map label (parse_nodes ns) =
     concat (map (\<lambda>n. case get_prop n ''label'' of Some (JStr l) \<Rightarrow> [l] | _ \<Rightarrow> []) ns)"
  by (induction ns)
     (auto simp: parse_nodes_def List.map_filter_simps parse_node_def Let_def
           split: option.splits json.splits)

text \<open>The conversion of the edges raises exactly when one of them is \<open>unprintable\<close>.\<close>

lemma parse_edges_step:
  "parse_edges (e # es) =
     (if unprintable e then Inl TypeError
      else case parse_edges es of
             Inl err \<Rightarrow> Inl err
           | Inr rest \<Rightarrow>
               (case get_prop e ''label'' of
                  Some (JStr l) \<Rightarrow>
                    Inr (\<lparr>edge_label = l,
                          weight = coalesce (get_prop e ''weight'') (get_prop e ''cost''),
                          edge_constant = get_prop e ''constant'',
                          sources = the (parse_sources (coalesce (get_prop e ''source_nodes'')
                                                                 (get_prop e ''sources''))),
                          target = (case get_prop e ''target'' of Some (JStr t) \<Rightarrow> t | _ \<Rightarrow> []),
                          rel = get_prop e ''rel''\<rparr> # rest)
                | _ \<Rightarrow> Inr rest))"
  by (simp add: unprintable_def split: option.split json.split sum.split)

lemma parse_edges_raises:
  "(\<exists>err. parse_edges es = Inl err) \<longleftrightarrow> (\<exists>e\<in>set es. unprintable e)"
proof (induction es)
  case Nil
  show ?case by simp
next
  case (Cons e es)
  show ?case
  proof (cases "unprintable e")
    case True
    then show ?thesis by (subst parse_edges_step) simp
  next
    case False
    have "(\<exists>err. parse_edges (e # es) = Inl err) \<longleftrightarrow> (\<exists>err. parse_edges es = Inl err)"
      unfolding parse_edges_step using False
      by (cases "parse_edges es") (simp_all split: option.split json.split)
    with Cons.IH False show ?thesis by simp
  qed
qed

text \<open>
  Claim C9, as stated, at a document with two nodes labelled \<^verbatim>\<open>a\<close>: the canonical model
  holds both, so its node labels are not unique.
\<close>

theorem parse_duplicate_labels_counterexample:
  "parseChgData (Inr duplicate_doc)
     = Some \<lparr>nodes = [\<lparr>label = ''a'', val = None, is_constant = None, description = None,
                        units = None, node_constant = None\<rparr>,
                      \<lparr>label = ''a'', val = Some (JNum ''1''), is_constant = None,
                        description = None, units = None, node_constant = None\<rparr>],
             edges = [\<lparr>edge_label = ''e1'', weight = Some (JNum ''1''), edge_constant = None,
                        sources = [\<lparr>handle = ''0'', src_label = ''a''\<rparr>], target = ''b'',
                        rel = None\<rparr>],
             frames = [], frameNames = []\<rparr> \<and>
   \<not> distinct (map label (nodes (the (parseChgData (Inr duplicate_doc)))))"
  by (simp add: parseChgData_def parse_body_def coalesce_def parse_frames_def Let_def
        parse_nodes_def List.map_filter_simps parse_node_def duplicate_doc_def
        duplicate_nodes_def scenario_edges_def parse_sources_def enumerate_eq_zip)

text \<open>
  Claim C9, amended. The node labels of the canonical model are the string labels of the
  document's node entries (read from \<^verbatim>\<open>raw.hypergraph ?? raw\<close>), in the document's order
  and with their repetitions: the parser removes no duplicate, so the labels are unique
  exactly when the document's are. Duplicate labels cause no failure: the parser returns
  \<^verbatim>\<open>null\<close> for such a document only when one of its edges has a string label and a source
  that \<^verbatim>\<open>String\<close> cannot convert, whatever its nodes are, and returns a model otherwise.
\<close>

theorem parse_keeps_labels:
  assumes "raw \<noteq> JNull"
    and "coalesce (get_prop raw ''hypergraph'') (Some raw) = Some hg"
    and "get_prop hg ''nodes'' = Some (JArr ns)"
  shows "(parseChgData (Inr raw) = None \<longleftrightarrow>
            (\<exists>es. get_prop hg ''edges'' = Some (JArr es) \<and> (\<exists>e\<in>set es. unprintable e)))
         \<and> (\<forall>d. parseChgData (Inr raw) = Some d \<longrightarrow>
              map label (nodes d) =
                concat (map (\<lambda>n. case get_prop n ''label'' of Some (JStr l) \<Rightarrow> [l] | _ \<Rightarrow> []) ns)
              \<and> (distinct (map label (nodes d)) \<longleftrightarrow>
                   distinct (concat (map (\<lambda>n. case get_prop n ''label'' of
                                                Some (JStr l) \<Rightarrow> [l] | _ \<Rightarrow> []) ns))))"
proof -
  let ?es = "case get_prop hg ''edges'' of Some (JArr xs) \<Rightarrow> parse_edges xs | _ \<Rightarrow> Inr []"
  have body: "parse_body raw =
                (case ?es of
                   Inl err \<Rightarrow> Inl err
                 | Inr es \<Rightarrow>
                     Inr \<lparr>nodes = parse_nodes ns, edges = es,
                          frames = fst (parse_frames (get_prop raw ''frames'')),
                          frameNames = snd (parse_frames (get_prop raw ''frames''))\<rparr>)"
    using assms by (simp add: parse_body_def Let_def cong: sum.case_cong)
  have fails: "(\<exists>err. ?es = Inl err) \<longleftrightarrow>
                 (\<exists>es. get_prop hg ''edges'' = Some (JArr es) \<and> (\<exists>e\<in>set es. unprintable e))"
  proof (cases "\<exists>xs. get_prop hg ''edges'' = Some (JArr xs)")
    case True
    then obtain xs where "get_prop hg ''edges'' = Some (JArr xs)" by blast
    then show ?thesis by (simp add: parse_edges_raises)
  next
    case False
    then have "?es = Inr []" by (auto split: option.splits json.splits)
    with False show ?thesis by simp
  qed
  have none: "parseChgData (Inr raw) = None \<longleftrightarrow> (\<exists>err. ?es = Inl err)"
    by (cases ?es) (simp_all add: parseChgData_def body)
  have labels: "map label (nodes d) = map label (parse_nodes ns)"
    if "parseChgData (Inr raw) = Some d" for d
    using that by (cases ?es) (auto simp: parseChgData_def body)
  show ?thesis
    unfolding none fails using labels by (simp add: labels_parse_nodes)
qed

theorem parse_keeps_labels_witness:
  "parseChgData (Inr duplicate_doc) \<noteq> None \<and>
   get_prop duplicate_doc ''edges'' = Some scenario_edges \<and>
   map label (nodes (the (parseChgData (Inr duplicate_doc)))) = [''a'', ''a'']"
proof -
  have a: "duplicate_doc \<noteq> JNull"
    and b: "coalesce (get_prop duplicate_doc ''hypergraph'') (Some duplicate_doc) = Some duplicate_doc"
    and c: "get_prop duplicate_doc ''nodes'' = Some (JArr duplicate_nodes)"
    and e: "get_prop duplicate_doc ''edges'' = Some scenario_edges"
    by (simp_all add: duplicate_doc_def coalesce_def)
  have p: "\<not> (\<exists>es. get_prop duplicate_doc ''edges'' = Some (JArr es) \<and> (\<exists>e\<in>set es. unprintable e))"
    by (simp add: e scenario_edges_def unprintable_def coalesce_def parse_sources_def
          enumerate_eq_zip)
  from parse_keeps_labels [OF a b c] p e
  show ?thesis by (auto simp: duplicate_nodes_def)
qed

section \<open>The simulation path overlay\<close>

lemma node_not_link: "node_id i \<Longrightarrow> \<not> link_id i"
  by (auto simp: node_id_def link_id_def)

lemma get_None_iff: "getElementById pool i = None \<longleftrightarrow> i \<notin> set (map ele_id pool)"
  by (auto simp: getElementById_def find_None_iff)

lemma get_distinct:
  "distinct (map ele_id pool) \<Longrightarrow> x \<in> set pool \<Longrightarrow> getElementById pool (ele_id x) = Some x"
  unfolding getElementById_def
  by (induction pool) (auto simp: rev_image_eqI)

lemma add_ele_good:
  assumes "good_shape (map shape pool)" and "good_el el"
  shows "good_shape (map shape (add_ele pool el))"
proof (cases el)
  case (NodeEl i l ty)
  then show ?thesis using assms
    by (auto simp: good_shape_def get_None_iff)
next
  case (LinkEl i s t)
  then show ?thesis using assms
    by (auto simp: good_shape_def get_None_iff)
qed

lemma foldl_add_ele_good:
  "good_shape (map shape pool) \<Longrightarrow> \<forall>el\<in>set els. good_el el \<Longrightarrow>
   good_shape (map shape (foldl add_ele pool els))"
  by (induction els arbitrary: pool) (auto simp: add_ele_good)

lemma buildElements_good: "\<forall>el\<in>set (buildElements dat). good_el el"
  by (cases dat) (auto simp: buildElements_def node_id_def link_id_def)

lemma built_good: "good_shape (map shape (cy_add [] (buildElements dat)))"
  unfolding cy_add_def
  by (rule foldl_add_ele_good) (use buildElements_good in \<open>auto simp: good_shape_def\<close>)

lemma shape_addClass [simp]: "map shape (addClass c i q) = map shape q"
  by (induction q) (auto simp: addClass_def)

lemma shape_removeClass [simp]: "map shape (removeClass c q) = map shape q"
  by (induction q) (auto simp: removeClass_def)

lemma ids_addClass [simp]: "map ele_id (addClass c i q) = map ele_id q"
  by (induction q) (auto simp: addClass_def)

lemma id_set_addClass [simp]: "ele_id ` set (addClass c i q) = ele_id ` set q"
  using ids_addClass [of c i q] by (metis set_map)

lemma has_addClass:
  "hasClass c (getElementById (addClass c j q) i) \<longleftrightarrow>
     hasClass c (getElementById q i) \<or> (i = j \<and> i \<in> set (map ele_id q))"
  by (induction q) (auto simp: addClass_def getElementById_def hasClass_def)

lemma has_removeClass: "\<not> hasClass c (getElementById (removeClass c q) i)"
  by (induction q) (auto simp: removeClass_def getElementById_def hasClass_def)

lemma shape_fold_addClass [simp]:
  "map shape (foldl (\<lambda>p l. addClass c (f l) p) q ls) = map shape q"
  by (induction ls arbitrary: q) auto

lemma has_fold_addClass:
  "hasClass c (getElementById (foldl (\<lambda>p l. addClass c (f l) p) q ls) i) \<longleftrightarrow>
     hasClass c (getElementById q i) \<or> (\<exists>l\<in>set ls. i = f l \<and> i \<in> set (map ele_id q))"
  by (induction ls arbitrary: q) (auto simp: has_addClass)

lemma shape_mark_link [simp]: "map shape (mark_link q e) = map shape q"
  by (auto simp: mark_link_def split: option.splits)

lemma shape_fold_mark [simp]: "map shape (foldl mark_link q es) = map shape q"
  by (induction es arbitrary: q) auto

text \<open>The loop over the links: the classes of an element that is no link stay, and a link
  gets the class when both of its ends had it before the loop.\<close>

lemma has_fold_mark:
  assumes "\<forall>e\<in>set es. \<forall>s t. ends e = Some (s, t) \<longrightarrow>
             s \<notin> L \<and> t \<notin> L \<and> ele_id e \<in> L \<and> ele_id e \<in> set (map ele_id q)"
  shows "hasClass ''sim-path'' (getElementById (foldl mark_link q es) i) \<longleftrightarrow>
           hasClass ''sim-path'' (getElementById q i) \<or>
           (\<exists>e\<in>set es. \<exists>s t. ends e = Some (s, t) \<and> ele_id e = i \<and>
              hasClass ''sim-path'' (getElementById q s) \<and>
              hasClass ''sim-path'' (getElementById q t))"
  using assms
proof (induction es arbitrary: q)
  case Nil
  then show ?case by simp
next
  case (Cons e es)
  let ?q = "mark_link q e"
  have keep: "hasClass ''sim-path'' (getElementById ?q j) = hasClass ''sim-path'' (getElementById q j)"
    if "j \<notin> L" for j
    using Cons.prems that by (auto simp: mark_link_def has_addClass split: option.splits)
  have ids: "map ele_id ?q = map ele_id q"
    by (auto simp: mark_link_def split: option.splits)
  have pre: "\<forall>e\<in>set es. \<forall>s t. ends e = Some (s, t) \<longrightarrow>
             s \<notin> L \<and> t \<notin> L \<and> ele_id e \<in> L \<and> ele_id e \<in> set (map ele_id ?q)"
    using Cons.prems by (simp add: ids)
  have step: "hasClass ''sim-path'' (getElementById ?q i) \<longleftrightarrow>
           hasClass ''sim-path'' (getElementById q i) \<or>
           (\<exists>s t. ends e = Some (s, t) \<and> ele_id e = i \<and>
              hasClass ''sim-path'' (getElementById q s) \<and>
              hasClass ''sim-path'' (getElementById q t))"
    using Cons.prems by (auto simp: mark_link_def has_addClass split: option.splits)
  have later: "(\<exists>e\<in>set es. \<exists>s t. ends e = Some (s, t) \<and> ele_id e = i \<and>
              hasClass ''sim-path'' (getElementById ?q s) \<and>
              hasClass ''sim-path'' (getElementById ?q t)) \<longleftrightarrow>
        (\<exists>e\<in>set es. \<exists>s t. ends e = Some (s, t) \<and> ele_id e = i \<and>
              hasClass ''sim-path'' (getElementById q s) \<and>
              hasClass ''sim-path'' (getElementById q t))"
    using Cons.prems keep by (metis list.set_intros(2))
  show ?case
    using Cons.IH [OF pre] step later by auto
qed

lemma has_after_labels:
  assumes "hasClass c (getElementById
             (foldl (\<lambda>p l. addClass c (''e:'' @ l) p)
                (foldl (\<lambda>p l. addClass c (''n:'' @ l) p) (removeClass c pool) ns) es) i)"
  shows "node_id i"
  using assms by (auto simp: has_fold_addClass has_removeClass node_id_def)

text \<open>
  Claim C8. After \<^verbatim>\<open>applySimPath\<close> on the elements built from a snapshot (whatever classes
  they had before), a link has the class \<^verbatim>\<open>sim-path\<close> if and only if its source element
  and its target element both have it.
\<close>

theorem link_on_path_iff_both_ends:
  assumes sh: "map (\<lambda>x. (ele_id x, ends x)) pool =
               map (\<lambda>x. (ele_id x, ends x)) (cy_add [] (buildElements dat))"
    and e: "e \<in> set (applySimPath path pool)" and en: "ends e = Some (s, t)"
  shows "''sim-path'' \<in> set (classes e) \<longleftrightarrow>
           hasClass ''sim-path'' (getElementById (applySimPath path pool) s) \<and>
           hasClass ''sim-path'' (getElementById (applySimPath path pool) t)"
proof -
  define p2 where "p2 =
    foldl (\<lambda>p l. addClass ''sim-path'' (''e:'' @ l) p)
      (foldl (\<lambda>p l. addClass ''sim-path'' (''n:'' @ l) p) (removeClass ''sim-path'' pool)
         (path_nodes path)) (path_edges path)"
  define final where "final = foldl mark_link p2 p2"
  have final: "applySimPath path pool = final"
    by (simp add: applySimPath_def final_def p2_def Let_def)
  have sh2: "map shape p2 = map shape pool" by (simp add: p2_def)
  have shf: "map shape final = map shape p2" by (simp add: final_def)
  have good: "good_shape (map shape p2)" using built_good [of dat] sh sh2 by simp
  have dist2: "distinct (map ele_id p2)"
    using good by (simp add: good_shape_def comp_def)
  have "map ele_id final = map ele_id p2"
    using arg_cong [OF shf, of "map fst"] by (simp add: comp_def)
  then have distf: "distinct (map ele_id final)"
    using dist2 by simp
  have links: "link_id (ele_id x) \<and> node_id a \<and> node_id b"
    if "x \<in> set p2" "ends x = Some (a, b)" for x a b
  proof -
    have "shape x \<in> set (map shape p2)" using that(1) by simp
    then have "(ele_id x, Some (a, b)) \<in> set (map shape p2)" using that(2) by simp
    then show ?thesis using good unfolding good_shape_def by blast
  qed
  have pre: "\<forall>x\<in>set p2. \<forall>a b. ends x = Some (a, b) \<longrightarrow>
               a \<notin> Collect link_id \<and> b \<notin> Collect link_id \<and> ele_id x \<in> Collect link_id \<and>
               ele_id x \<in> set (map ele_id p2)"
    using links node_not_link by auto
  note fold = has_fold_mark [OF pre, folded final_def]
  have "shape e \<in> set (map shape final)" using e final by simp
  then have "(ele_id e, Some (s, t)) \<in> set (map shape final)" using en by simp
  then have in2: "(ele_id e, Some (s, t)) \<in> set (map shape p2)" using shf by simp
  then have lk: "link_id (ele_id e)" "node_id s" "node_id t"
    using good unfolding good_shape_def by blast+
  have no2: "\<not> hasClass ''sim-path'' (getElementById p2 (ele_id e))"
    using has_after_labels [of "''sim-path''" pool "path_nodes path" "path_edges path" "ele_id e"]
      lk(1) node_not_link unfolding p2_def by blast
  have same: "a = s \<and> b = t" if "x \<in> set p2" "ends x = Some (a, b)" "ele_id x = ele_id e" for x a b
  proof -
    have "shape x \<in> set (map shape p2)" using that(1) by simp
    then have m: "(ele_id e, Some (a, b)) \<in> set (map shape p2)" using that(2,3) by simp
    have d: "distinct (map fst (map shape p2))" using dist2 by (simp add: comp_def)
    from d m in2 have "Some (a, b) = Some (s, t)" by (rule eq_key_imp_eq_value)
    then show ?thesis by simp
  qed
  obtain e0 where e0: "e0 \<in> set p2" "ends e0 = Some (s, t)" "ele_id e0 = ele_id e"
    using in2 by auto
  have self: "hasClass ''sim-path'' (getElementById final (ele_id e)) \<longleftrightarrow>
              hasClass ''sim-path'' (getElementById p2 s) \<and> hasClass ''sim-path'' (getElementById p2 t)"
  proof
    assume "hasClass ''sim-path'' (getElementById final (ele_id e))"
    then obtain x a b where x: "x \<in> set p2" "ends x = Some (a, b)" "ele_id x = ele_id e"
      and ab: "hasClass ''sim-path'' (getElementById p2 a)" "hasClass ''sim-path'' (getElementById p2 b)"
      unfolding fold using no2 by blast
    from same [OF x] ab
    show "hasClass ''sim-path'' (getElementById p2 s) \<and> hasClass ''sim-path'' (getElementById p2 t)"
      by simp
  next
    assume "hasClass ''sim-path'' (getElementById p2 s) \<and> hasClass ''sim-path'' (getElementById p2 t)"
    then show "hasClass ''sim-path'' (getElementById final (ele_id e))"
      unfolding fold using e0 by blast
  qed
  have ends_keep: "hasClass ''sim-path'' (getElementById final j) =
                   hasClass ''sim-path'' (getElementById p2 j)" if j: "node_id j" for j
  proof -
    have "\<not> (\<exists>x\<in>set p2. \<exists>a b. ends x = Some (a, b) \<and> ele_id x = j \<and>
              hasClass ''sim-path'' (getElementById p2 a) \<and>
              hasClass ''sim-path'' (getElementById p2 b))"
      using links node_not_link [OF j] by blast
    then show ?thesis unfolding fold by blast
  qed
  have "getElementById final (ele_id e) = Some e"
    using get_distinct [OF distf] e final by simp
  then have "''sim-path'' \<in> set (classes e) \<longleftrightarrow> hasClass ''sim-path'' (getElementById final (ele_id e))"
    by (simp add: hasClass_def)
  then show ?thesis
    unfolding final using self ends_keep lk by simp
qed

lemma one_sided_overlay:
  "applySimPath one_sided_path (cy_add [] (buildElements (Some scenario_data))) =
     [\<lparr>ele_id = ''n:a'', ends = None, classes = []\<rparr>,
      \<lparr>ele_id = ''n:b'', ends = None, classes = [''sim-path'']\<rparr>,
      \<lparr>ele_id = ''e:e1'', ends = None, classes = [''sim-path'']\<rparr>,
      \<lparr>ele_id = ''se:e1:a'', ends = Some (''n:a'', ''e:e1''), classes = []\<rparr>,
      \<lparr>ele_id = ''te:e1'', ends = Some (''e:e1'', ''n:b''), classes = [''sim-path'']\<rparr>]"
  by (simp add: applySimPath_def cy_add_def buildElements_def scenario_data_def scenario_path_def
        one_sided_path_def getElementById_def addClass_def removeClass_def mark_link_def
        hasClass_def)

theorem link_on_path_iff_both_ends_witness:
  "\<lparr>ele_id = ''se:e1:a'', ends = Some (''n:a'', ''e:e1''), classes = []\<rparr>
     \<in> set (on_setData (Some scenario_data) (Some one_sided_path)) \<and>
   \<lparr>ele_id = ''te:e1'', ends = Some (''e:e1'', ''n:b''), classes = [''sim-path'']\<rparr>
     \<in> set (on_setData (Some scenario_data) (Some one_sided_path)) \<and>
   \<not> (hasClass ''sim-path''
         (getElementById (on_setData (Some scenario_data) (Some one_sided_path)) ''n:a'') \<and>
       hasClass ''sim-path''
         (getElementById (on_setData (Some scenario_data) (Some one_sided_path)) ''e:e1'')) \<and>
   hasClass ''sim-path''
     (getElementById (on_setData (Some scenario_data) (Some one_sided_path)) ''e:e1'') \<and>
   hasClass ''sim-path''
     (getElementById (on_setData (Some scenario_data) (Some one_sided_path)) ''n:b'')"
proof -
  let ?pool = "cy_add [] (buildElements (Some scenario_data))"
  let ?se = "\<lparr>ele_id = ''se:e1:a'', ends = Some (''n:a'', ''e:e1''), classes = []\<rparr>"
  let ?te = "\<lparr>ele_id = ''te:e1'', ends = Some (''e:e1'', ''n:b''), classes = [''sim-path'']\<rparr>"
  have eq: "on_setData (Some scenario_data) (Some one_sided_path) = applySimPath one_sided_path ?pool"
    by (simp add: on_setData_def)
  have mem: "?se \<in> set (applySimPath one_sided_path ?pool)"
    and mem': "?te \<in> set (applySimPath one_sided_path ?pool)"
    by (simp_all add: one_sided_overlay)
  have en: "ends ?se = Some (''n:a'', ''e:e1'')" and en': "ends ?te = Some (''e:e1'', ''n:b'')"
    by simp_all
  from link_on_path_iff_both_ends [OF refl mem en] link_on_path_iff_both_ends [OF refl mem' en']
    mem mem'
  show ?thesis unfolding eq by simp
qed

section \<open>Renaming a node\<close>

text \<open>The loop over the edges renames the elements of a source array and leaves a source
  object as it is.\<close>

lemma rename_in_removes:
  "newLabel \<noteq> nodeLabel \<Longrightarrow> JStr nodeLabel \<notin> set (map (rename_in nodeLabel newLabel) xs)"
  by (auto simp: rename_in_def)

lemma rename_edge_array_sources:
  assumes "map_of kvs ''source_nodes'' = Some (JArr xs)"
  shows "\<exists>kvs'. rename_edge nodeLabel newLabel (JObj kvs) = Inr (JObj kvs') \<and>
           map_of kvs' ''source_nodes'' = Some (JArr (map (rename_in nodeLabel newLabel) xs))"
  using assms
  by (auto simp: rename_edge_def Let_def update_conv' split: option.splits json.splits)

lemma rename_edge_keyed_sources:
  assumes "map_of kvs ''source_nodes'' = Some (JObj hs)"
  shows "\<exists>kvs'. rename_edge nodeLabel newLabel (JObj kvs) = Inr (JObj kvs') \<and>
           map_of kvs' ''source_nodes'' = Some (JObj hs)"
  using assms
  by (auto simp: rename_edge_def Let_def update_conv' split: option.splits json.splits)

text \<open>
  Claim C1 says that after a node is renamed from the details view no edge refers to the
  old label, whether the edge keeps its sources as an array or as an object from handle
  to label. The code at a document with both kinds of edge, node \<^verbatim>\<open>x\<close> renamed to \<^verbatim>\<open>z\<close>:
  the node, the array source and target of \<^verbatim>\<open>e2\<close>, the frame entry and the selection
  follow the rename, and the keyed source of \<^verbatim>\<open>e1\<close> still reads \<^verbatim>\<open>x\<close>, in the document
  written and in the model parsed from it.
\<close>

theorem rename_misses_keyed_sources:
  "updateNode_label keyed_doc ''x'' ''z'' x_selected =
     Inr (JObj [(''nodes'', JArr [JObj [(''label'', JStr ''z'')], JObj [(''label'', JStr ''y'')]]),
                (''edges'', JArr [JObj [(''label'', JStr ''e1''),
                                        (''source_nodes'', JObj [(''in'', JStr ''x'')]),
                                        (''target'', JStr ''y'')],
                                  JObj [(''label'', JStr ''e2''),
                                        (''source_nodes'', JArr [JStr ''z'']),
                                        (''target'', JStr ''z'')]]),
                (''frames'', JObj [(''f0'', JObj [(''z'', JArr [JNum ''3''])])])],
          setSelection (Some NODE) (Some ''z'') initial_state)
   \<and> map (\<lambda>e. (edge_label e, map src_label (sources e), target e))
         (edges (the (parseChgData (Inr (fst (projr (updateNode_label keyed_doc ''x'' ''z'' x_selected)))))))
       = [(''e1'', [''x''], ''y''), (''e2'', [''z''], ''z'')]"
  by (simp add: updateNode_label_def keyed_doc_def x_selected_def and_then_def getNodes_def
        getEdges_def array_field_def array_of_def store_array_def rename_edge_def rename_in_def
        rename_frames_def rename_frame_def setSelection_def initial_state_def
        parseChgData_def parse_body_def coalesce_def parse_nodes_def List.map_filter_def
        parse_node_def parse_sources_def parse_frames_def parse_frame_def enumerate_eq_zip
        Let_def)

section \<open>Merging a simulation result\<close>

lemma find_label_Some:
  "find_label l ns = Inr (Some (i, nkvs)) \<Longrightarrow>
     i < length ns \<and> ns ! i = JObj nkvs \<and> map_of nkvs ''label'' = Some (JStr l)"
proof (induction ns arbitrary: i)
  case Nil
  then show ?case by simp
next
  case (Cons n ns)
  show ?case
  proof (cases "\<exists>kvs. n = JObj kvs \<and> map_of kvs ''label'' = Some (JStr l)")
    case True
    then show ?thesis using Cons.prems by auto
  next
    case False
    then obtain r where r: "find_label l ns = Inr r" and ir: "map_option (\<lambda>(i, p). (Suc i, p)) r = Some (i, nkvs)"
      using Cons.prems by (cases n; cases "find_label l ns") (auto simp: and_then_def split: if_splits)
    then obtain j where j: "r = Some (j, nkvs)" "i = Suc j" by (cases r) auto
    with Cons.IH [of j] r show ?thesis by simp
  qed
qed

lemma array_of_nonempty:
  "array_of obj k = Inr (obj', xs) \<Longrightarrow> xs \<noteq> [] \<Longrightarrow> obj' = obj \<and> get_prop obj k = Some (JArr xs)"
  by (auto simp: array_of_def and_then_def split: option.splits json.splits sum.splits)

lemma get_prop_Some_obj: "get_prop x k = Some v \<Longrightarrow> \<exists>kvs. x = JObj kvs \<and> map_of kvs k = Some v"
  by (cases x) auto

lemma array_field_nonempty:
  assumes "array_field k raw = Inr (raw1, xs)" and "xs \<noteq> []"
  shows "raw1 = raw"
proof (cases "truthy (get_prop raw ''hypergraph'')")
  case True
  then obtain h where h: "get_prop raw ''hypergraph'' = Some h" by (cases "get_prop raw ''hypergraph''") auto
  then obtain rkvs where r: "raw = JObj rkvs" "map_of rkvs ''hypergraph'' = Some h"
    using get_prop_Some_obj by blast
  from assms True h obtain h' where a: "array_of h k = Inr (h', xs)" and p: "put_prop raw ''hypergraph'' h' = Inr raw1"
    by (auto simp: array_field_def and_then_def split: sum.splits if_splits)
  from array_of_nonempty [OF a assms(2)] have "h' = h" by simp
  with p r show ?thesis by (simp add: AList.update_triv)
next
  case False
  with assms have "array_of raw k = Inr (raw1, xs)"
    by (auto simp: array_field_def split: if_splits)
  from array_of_nonempty [OF this assms(2)] show ?thesis by simp
qed

lemma array_field_store:
  assumes "array_field k raw = Inr (raw1, ns)" and "ns \<noteq> []"
  shows "array_field k (store_array k raw xs) = Inr (store_array k raw xs, xs)"
proof (cases "truthy (get_prop raw ''hypergraph'')")
  case True
  then obtain h where h: "get_prop raw ''hypergraph'' = Some h" by (cases "get_prop raw ''hypergraph''") auto
  then obtain rkvs where r: "raw = JObj rkvs" "map_of rkvs ''hypergraph'' = Some h"
    using get_prop_Some_obj by blast
  from assms True h obtain h' where a: "array_of h k = Inr (h', ns)"
    by (auto simp: array_field_def and_then_def split: sum.splits if_splits)
  from array_of_nonempty [OF a assms(2)] have "get_prop h k = Some (JArr ns)" by simp
  then obtain hkvs where hk: "h = JObj hkvs" using get_prop_Some_obj by blast
  show ?thesis using True h r hk
    by (simp add: store_array_def array_field_def array_of_def and_then_def update_conv')
next
  case False
  with assms have a: "array_of raw k = Inr (raw1, ns)"
    by (auto simp: array_field_def split: if_splits)
  from array_of_nonempty [OF a assms(2)] have "get_prop raw k = Some (JArr ns)" by simp
  then obtain rkvs where r: "raw = JObj rkvs" and g: "map_of rkvs k = Some (JArr ns)"
    using get_prop_Some_obj by blast
  have hk: "map_of (AList.update k (JArr xs) rkvs) ''hypergraph'' =
            (if k = ''hypergraph'' then Some (JArr xs) else map_of rkvs ''hypergraph'')"
    by (simp add: update_conv')
  show ?thesis using False r hk g
    by (auto simp: store_array_def array_field_def array_of_def and_then_def update_conv')
qed

lemma map_of_set_value:
  "map_of (set_value v nkvs) k = (if k = ''value'' then v else map_of nkvs k)"
  by (cases v) (auto simp: set_value_def update_conv' delete_conv')

lemma write_frame_readback:
  assumes "write_frame fk l v (JObj rkvs) = Inr raw'" and "l \<noteq> ''__proto__''"
  shows "\<exists>fs fd. get_prop raw' ''frames'' = Some fs \<and> get_prop fs fk = Some fd \<and>
                 get_prop fd l = Some (one_element v)"
  using assms
  by (auto simp: write_frame_def update_conv' split: option.splits json.splits if_splits)

lemma write_frame_ok:
  assumes "fk \<notin> set object_prototype_names"
    and "\<not> truthy (map_of rkvs ''frames'') \<or>
           (\<exists>fkvs. map_of rkvs ''frames'' = Some (JObj fkvs) \<and>
              (\<not> truthy (map_of fkvs fk) \<or> (\<exists>kvs. map_of fkvs fk = Some (JObj kvs))))"
  shows "\<exists>raw'. write_frame fk l v (JObj rkvs) = Inr raw'"
  using assms
  by (auto simp: write_frame_def)

text \<open>At the names left out: a label \<^verbatim>\<open>__proto__\<close> leaves the document of the scenario as it
  is, and the frame name \<^verbatim>\<open>constructor\<close> is not followed.\<close>

lemma write_frame_inherited_names:
  "write_frame ''f0'' ''__proto__'' (Some (JNum ''4'')) scenario_doc = Inr scenario_doc"
  "write_frame ''constructor'' ''b'' (Some (JNum ''4'')) scenario_doc = Inl Unmodelled"
  by (simp_all add: write_frame_def scenario_doc_def object_prototype_names_def)

lemma scenario_b_selected:
  "b_selected = \<lparr>kind = Some NODE, sel_label = Some ''b'', data = Some scenario_data,
                  currentFrame = Some ''f0'', layout = ''grid'', simPath = None\<rparr>"
  by (simp add: b_selected_def setData_fire_def setData_def onDataChange_def setSelection_def
        initial_state_def scenario_data_def)

text \<open>
  Claim C2, as stated, at a result with a value and no error that lacks \<^verbatim>\<open>target_node\<close>:
  the value is written into the entry of node \<^verbatim>\<open>b\<close> in the active frame \<^verbatim>\<open>f0\<close>, and the
  annotation that was active stays, although the result came with a path, a cost and
  counts.
\<close>

theorem simulate_without_path_counterexample:
  "res_error (scenario_result\<lparr>target_node := None\<rparr>) = None \<and>
   simulate (b_selected\<lparr>simPath := Some one_sided_path\<rparr>)
            (scenario_result\<lparr>target_node := None\<rparr>) (Inr scenario_doc) =
     Inr (Inr (JObj [(''nodes'', scenario_nodes), (''edges'', scenario_edges),
                     (''frames'', JObj [(''f0'', JObj [(''b'', JArr [JNum ''4''])])])]),
          b_selected\<lparr>simPath := Some one_sided_path\<rparr>)"
  by (simp add: scenario_b_selected simulate_def scenario_result_def scenario_doc_def
        scenario_nodes_def scenario_edges_def writeSimulationResult_def getNodes_def
        array_field_def array_of_def and_then_def coalesce_def write_frame_def one_element_def
        path_of_result_def Let_def object_prototype_names_def)

text \<open>
  Claim C2, amended. For a result without an error field, a selected node that the
  document holds, and frames that are absent, falsy or objects: \<^verbatim>\<open>_simulate\<close> writes the
  returned value into \<^verbatim>\<open>node.value\<close> when the node is constant or no frame is active, and
  otherwise into the active frame's entry for the node's label, as a one-element
  sequence in the place of any entry there, provided that the label is not \<^verbatim>\<open>__proto__\<close>
  and the name of the active frame is not the name of a member inherited from
  \<^verbatim>\<open>Object.prototype\<close>; and it replaces the annotation with the path built from the result
  when the result has both \<^verbatim>\<open>target_node\<close> and \<^verbatim>\<open>path_nodes\<close>, and leaves the annotation as
  it was when the result lacks one of them.
\<close>

theorem simulate_writes_and_annotates:
  assumes sel: "kind st = Some NODE" "sel_label st = Some l" "l \<noteq> []"
    and ok: "res_error result = None"
    and nodes: "getNodes raw = Inr (raw1, ns)"
    and found: "find_label l ns = Inr (Some (i, nkvs))"
    and fk: "fk = (case currentFrame st of Some f \<Rightarrow> f | None \<Rightarrow> [])"
    and flag: "isConst = truthy (coalesce (map_of nkvs ''is_constant'') (map_of nkvs ''constant''))"
    and frames_ok:
      "\<not> isConst \<and> fk \<noteq> [] \<longrightarrow>
         l \<noteq> ''__proto__'' \<and> fk \<notin> set object_prototype_names \<and>
         (\<not> truthy (get_prop raw ''frames'') \<or>
          (\<exists>fkvs. get_prop raw ''frames'' = Some (JObj fkvs) \<and>
             (\<not> truthy (map_of fkvs fk) \<or> (\<exists>kvs. map_of fkvs fk = Some (JObj kvs)))))"
  shows "\<exists>raw' st'.
           simulate st result (Inr raw) = Inr (Inr raw', st') \<and>
           (if isConst \<or> fk = []
            then \<exists>nkvs'. getNodes raw' = Inr (raw', ns[i := JObj nkvs']) \<and>
                   map_of nkvs' ''value'' = res_value result \<and>
                   (\<forall>k. k \<noteq> ''value'' \<longrightarrow> map_of nkvs' k = map_of nkvs k)
            else \<exists>fs fd. get_prop raw' ''frames'' = Some fs \<and> get_prop fs fk = Some fd \<and>
                   get_prop fd l = Some (one_element (res_value result))) \<and>
           simPath st' = (case path_of_result result of Some p \<Rightarrow> Some p | None \<Rightarrow> simPath st)"
proof -
  from find_label_Some [OF found] have ne: "ns \<noteq> []" by auto
  have same: "raw1 = raw" using array_field_nonempty nodes ne unfolding getNodes_def by blast
  define st' where "st' = (case path_of_result result of Some p \<Rightarrow> setSimPath (Some p) st | None \<Rightarrow> st)"
  have sp: "simPath st' = (case path_of_result result of Some p \<Rightarrow> Some p | None \<Rightarrow> simPath st)"
    by (simp add: st'_def setSimPath_def split: option.splits)
  show ?thesis
  proof (cases "isConst \<or> fk = []")
    case True
    let ?raw' = "store_array ''nodes'' raw (ns[i := JObj (set_value (res_value result) nkvs)])"
    have w: "writeSimulationResult (Inr raw) l (res_value result) fk = Inr (Some ?raw')"
      using True nodes found same flag
      by (auto simp: writeSimulationResult_def and_then_def Let_def)
    have sim: "simulate st result (Inr raw) = Inr (Inr ?raw', st')"
      using sel ok by (simp add: simulate_def fk [symmetric] w and_then_def st'_def Let_def)
    have rb: "getNodes ?raw' = Inr (?raw', ns[i := JObj (set_value (res_value result) nkvs)])"
      using array_field_store nodes ne unfolding getNodes_def by blast
    show ?thesis
      using True sim rb sp by (auto simp: map_of_set_value intro!: exI)
  next
    case False
    obtain rkvs where r: "raw = JObj rkvs"
      using nodes ne same
      by (cases raw) (auto simp: getNodes_def array_field_def array_of_def and_then_def
                           split: if_splits option.splits json.splits)
    from False frames_ok have lp: "l \<noteq> ''__proto__''" and fp: "fk \<notin> set object_prototype_names"
      and shape: "\<not> truthy (map_of rkvs ''frames'') \<or>
          (\<exists>fkvs. map_of rkvs ''frames'' = Some (JObj fkvs) \<and>
             (\<not> truthy (map_of fkvs fk) \<or> (\<exists>kvs. map_of fkvs fk = Some (JObj kvs))))"
      using r by auto
    from write_frame_ok [OF fp shape, of l "res_value result"] r
    obtain framed where fr: "write_frame fk l (res_value result) raw = Inr framed"
      by auto
    have w: "writeSimulationResult (Inr raw) l (res_value result) fk = Inr (Some framed)"
      using False nodes found same flag fr
      by (auto simp: writeSimulationResult_def and_then_def Let_def)
    have sim: "simulate st result (Inr raw) = Inr (Inr framed, st')"
      using sel ok by (simp add: simulate_def fk [symmetric] w and_then_def st'_def Let_def)
    from fr r have "write_frame fk l (res_value result) (JObj rkvs) = Inr framed" by simp
    from write_frame_readback [OF this lp]
    show ?thesis
      using False sim sp by auto
  qed
qed

theorem simulate_writes_and_annotates_witness:
  "kind b_selected = Some NODE \<and> sel_label b_selected = Some ''b'' \<and>
   res_error scenario_result = None \<and>
   (\<exists>raw' st'.
      simulate b_selected scenario_result (Inr scenario_doc) = Inr (Inr raw', st') \<and>
      (\<exists>fs fd. get_prop raw' ''frames'' = Some fs \<and> get_prop fs ''f0'' = Some fd \<and>
               get_prop fd ''b'' = Some (JArr [JNum ''4''])) \<and>
      simPath st' = Some scenario_path)"
proof -
  have n: "getNodes scenario_doc =
             Inr (scenario_doc,
                  [JObj [(''label'', JStr ''a''), (''is_constant'', JBool True),
                         (''value'', JNum ''2'')],
                   JObj [(''label'', JStr ''b'')]])"
    by (simp add: getNodes_def array_field_def array_of_def scenario_doc_def scenario_nodes_def)
  have f: "find_label ''b''
             [JObj [(''label'', JStr ''a''), (''is_constant'', JBool True), (''value'', JNum ''2'')],
              JObj [(''label'', JStr ''b'')]] = Inr (Some (1, [(''label'', JStr ''b'')]))"
    by (simp add: and_then_def)
  have p: "path_of_result scenario_result = Some scenario_path"
    by (simp add: path_of_result_def scenario_result_def scenario_path_def)
  have s: "kind b_selected = Some NODE" "sel_label b_selected = Some ''b''" "''b'' \<noteq> []"
    by (simp_all add: scenario_b_selected)
  have e: "res_error scenario_result = None" by (simp add: scenario_result_def)
  have k: "''f0'' = (case currentFrame b_selected of Some f \<Rightarrow> f | None \<Rightarrow> [])"
    by (simp add: scenario_b_selected)
  have c: "False = truthy (coalesce (map_of [(''label'', JStr ''b'')] ''is_constant'')
                                    (map_of [(''label'', JStr ''b'')] ''constant''))"
    by (simp add: coalesce_def)
  have fr: "\<not> False \<and> ''f0'' \<noteq> [] \<longrightarrow>
         ''b'' \<noteq> ''__proto__'' \<and> ''f0'' \<notin> set object_prototype_names \<and>
         (\<not> truthy (get_prop scenario_doc ''frames'') \<or>
          (\<exists>fkvs. get_prop scenario_doc ''frames'' = Some (JObj fkvs) \<and>
             (\<not> truthy (map_of fkvs ''f0'') \<or> (\<exists>kvs. map_of fkvs ''f0'' = Some (JObj kvs)))))"
    by (simp add: scenario_doc_def object_prototype_names_def)
  have v: "res_value scenario_result = Some (JNum ''4'')" by (simp add: scenario_result_def)
  from simulate_writes_and_annotates [OF s e n f k c fr] s(1,2) e
  show ?thesis by (simp add: p v one_element_def)
qed

end
